theory Spec2Isabelle
  imports Main "HOL-Library.AList" "HOL-Library.Word"
begin

section \<open>The installer of pkg/installer/install.go\<close>

text \<open>
  The installer builds resource descriptors of the orchestration platform and either
  prints them, serializes them to an optional writer, or submits them through the
  orchestration API. The descriptors are modelled as records that carry the fields the
  source sets; a field the source leaves out has Go's zero value and is either absent
  from the record or present with that zero value (the empty list, \<open>None\<close> for a
  nil pointer or an empty string-typed enumeration).

  A Go \<open>map[string]string\<close> is an association list. A map literal lists its
  entries in source order (Go rejects a literal that repeats a constant key), and an
  indexed assignment \<open>m[k] = v\<close> is \<^const>\<open>AList.update\<close>.
\<close>

subsection \<open>Errors\<close>

type_synonym byte = "8 word"
type_synonym bytes = "byte list"

text \<open>
  The error values of the module (\<open>ErrKubeVersionNotSupported\<close>, \<open>errEmptyCABundle\<close>),
  the two status reasons of the orchestration API that the module tests for with
  \<open>kerr.IsNotFound\<close> and \<open>kerr.IsAlreadyExists\<close>, and every other error of a
  collaborator.
\<close>

datatype error =
    ErrKubeVersionNotSupported
  | errEmptyCABundle
  | NotFound
  | AlreadyExists
  | OtherError string

definition IsNotFound :: "error \<Rightarrow> bool" where
  "IsNotFound err = (err = NotFound)"

definition IsAlreadyExists :: "error \<Rightarrow> bool" where
  "IsAlreadyExists err = (err = AlreadyExists)"

subsection \<open>Resource descriptors\<close>

record metav1_TypeMeta =
  Kind :: string
  APIVersion :: string

record metav1_ObjectMeta =
  om_Name :: string
  om_Namespace :: string
  om_Annotations :: "(string \<times> string) list"
  om_Labels :: "(string \<times> string) list"
  om_Finalizers :: "string list"

record metav1_LabelSelector =
  ls_MatchLabels :: "(string \<times> string) list"

record corev1_Namespace =
  ns_TypeMeta :: metav1_TypeMeta
  ns_ObjectMeta :: metav1_ObjectMeta
  ns_Spec_Finalizers :: "string list"

datatype VolumeLifecycleMode = VolumeLifecyclePersistent | VolumeLifecycleEphemeral

text \<open>\<open>storagev1.CSIDriver\<close> and \<open>storagev1beta1.CSIDriver\<close> have the same fields.\<close>

record storage_CSIDriver =
  cd_TypeMeta :: metav1_TypeMeta
  cd_ObjectMeta :: metav1_ObjectMeta
  cd_PodInfoOnMount :: "bool option"
  cd_AttachRequired :: "bool option"
  cd_VolumeLifecycleModes :: "VolumeLifecycleMode list"

record corev1_TopologySelectorLabelRequirement =
  tr_Key :: string
  tr_Values :: "string list"

record corev1_TopologySelectorTerm =
  tt_MatchLabelExpressions :: "corev1_TopologySelectorLabelRequirement list"

datatype VolumeBindingMode = VolumeBindingImmediate | VolumeBindingWaitForFirstConsumer

datatype PersistentVolumeReclaimPolicy =
  PersistentVolumeReclaimRecycle | PersistentVolumeReclaimDelete | PersistentVolumeReclaimRetain

text \<open>\<open>storagev1.StorageClass\<close> and \<open>storagev1beta1.StorageClass\<close> have the same fields.\<close>

record storage_StorageClass =
  sc_TypeMeta :: metav1_TypeMeta
  sc_ObjectMeta :: metav1_ObjectMeta
  sc_Provisioner :: string
  sc_AllowVolumeExpansion :: "bool option"
  sc_VolumeBindingMode :: "VolumeBindingMode option"
  sc_AllowedTopologies :: "corev1_TopologySelectorTerm list"
  sc_ReclaimPolicy :: "PersistentVolumeReclaimPolicy option"
  sc_Parameters :: "(string \<times> string) list"

datatype intstr_IntOrString = IntVal int | StrVal string

record corev1_ServicePort =
  sp_Name :: string
  sp_Port :: int
  sp_TargetPort :: intstr_IntOrString

record corev1_Service =
  svc_TypeMeta :: metav1_TypeMeta
  svc_ObjectMeta :: metav1_ObjectMeta
  svc_Ports :: "corev1_ServicePort list"
  svc_Selector :: "(string \<times> string) list"

datatype HostPathType = HostPathDirectoryOrCreate | HostPathDirectory

record corev1_HostPathVolumeSource =
  hp_Path :: string
  hp_Type :: "HostPathType option"

record corev1_SecretVolumeSource =
  ss_SecretName :: string

record corev1_VolumeSource =
  vs_HostPath :: "corev1_HostPathVolumeSource option"
  vs_Secret :: "corev1_SecretVolumeSource option"

record corev1_Volume =
  vol_Name :: string
  vol_VolumeSource :: corev1_VolumeSource

datatype MountPropagationMode =
  MountPropagationNone | MountPropagationHostToContainer | MountPropagationBidirectional

record corev1_VolumeMount =
  vm_Name :: string
  vm_ReadOnly :: bool
  vm_MountPath :: string
  vm_MountPropagation :: "MountPropagationMode option"

record corev1_ObjectFieldSelector =
  fs_APIVersion :: string
  fs_FieldPath :: string

record corev1_EnvVarSource =
  evs_FieldRef :: "corev1_ObjectFieldSelector option"

record corev1_EnvVar =
  ev_Name :: string
  ev_Value :: string
  ev_ValueFrom :: "corev1_EnvVarSource option"

datatype Protocol = ProtocolTCP | ProtocolUDP | ProtocolSCTP

record corev1_ContainerPort =
  cp_ContainerPort :: int
  cp_Name :: string
  cp_Protocol :: Protocol

datatype URIScheme = URISchemeHTTP | URISchemeHTTPS

record corev1_HTTPGetAction =
  hg_Path :: string
  hg_Port :: intstr_IntOrString
  hg_Scheme :: "URIScheme option"

record corev1_Handler =
  h_HTTPGet :: "corev1_HTTPGetAction option"

record corev1_Probe =
  pr_Handler :: corev1_Handler
  pr_InitialDelaySeconds :: int
  pr_TimeoutSeconds :: int
  pr_PeriodSeconds :: int
  pr_FailureThreshold :: int

datatype SeccompProfileType =
  SeccompProfileTypeUnconfined | SeccompProfileTypeRuntimeDefault | SeccompProfileTypeLocalhost

record corev1_SeccompProfile =
  scp_Type :: SeccompProfileType
  scp_LocalhostProfile :: "string option"

record corev1_SecurityContext =
  sctx_Privileged :: "bool option"
  sctx_SeccompProfile :: "corev1_SeccompProfile option"

datatype TerminationMessagePolicy =
  TerminationMessageReadFile | TerminationMessageFallbackToLogsOnError

record corev1_Container =
  c_Name :: string
  c_Image :: string
  c_Args :: "string list"
  c_Env :: "corev1_EnvVar list"
  c_VolumeMounts :: "corev1_VolumeMount list"
  c_TerminationMessagePolicy :: "TerminationMessagePolicy option"
  c_TerminationMessagePath :: string
  c_SecurityContext :: "corev1_SecurityContext option"
  c_Ports :: "corev1_ContainerPort list"
  c_ReadinessProbe :: "corev1_Probe option"
  c_LivenessProbe :: "corev1_Probe option"

record corev1_Toleration =
  tol_Key :: string
  tol_Operator :: string
  tol_Value :: string
  tol_Effect :: string
  tol_TolerationSeconds :: "int option"

datatype DNSPolicy =
  DNSClusterFirstWithHostNet | DNSClusterFirst | DNSDefault | DNSNone

record corev1_PodSpec =
  ps_ServiceAccountName :: string
  ps_HostIPC :: bool
  ps_HostPID :: bool
  ps_Volumes :: "corev1_Volume list"
  ps_Containers :: "corev1_Container list"
  ps_NodeSelector :: "(string \<times> string) list"
  ps_Tolerations :: "corev1_Toleration list"
  ps_HostNetwork :: bool
  ps_DNSPolicy :: "DNSPolicy option"

record corev1_PodTemplateSpec =
  pt_ObjectMeta :: metav1_ObjectMeta
  pt_Spec :: corev1_PodSpec

record appsv1_DaemonSet =
  ds_TypeMeta :: metav1_TypeMeta
  ds_ObjectMeta :: metav1_ObjectMeta
  ds_Selector :: "metav1_LabelSelector option"
  ds_Template :: corev1_PodTemplateSpec

record appsv1_Deployment =
  dp_TypeMeta :: metav1_TypeMeta
  dp_ObjectMeta :: metav1_ObjectMeta
  dp_Replicas :: "int option"
  dp_Selector :: "metav1_LabelSelector option"
  dp_Template :: corev1_PodTemplateSpec

record corev1_Secret =
  sec_TypeMeta :: metav1_TypeMeta
  sec_ObjectMeta :: metav1_ObjectMeta
  sec_Data :: "(string \<times> bytes) list"

datatype admissionv1_OperationType =
  admissionv1_Create | admissionv1_Update | admissionv1_Delete | admissionv1_Connect

record admissionv1_Rule =
  r_APIGroups :: "string list"
  r_APIVersions :: "string list"
  r_Resources :: "string list"

record admissionv1_RuleWithOperations =
  rwo_Operations :: "admissionv1_OperationType list"
  rwo_Rule :: admissionv1_Rule

record admissionv1_ServiceReference =
  sr_Namespace :: string
  sr_Name :: string
  sr_Path :: "string option"

record admissionv1_WebhookClientConfig =
  wcc_Service :: "admissionv1_ServiceReference option"
  wcc_CABundle :: bytes

datatype SideEffectClass = SideEffectClassNone | SideEffectClassNoneOnDryRun

record admissionv1_ValidatingWebhook =
  vw_Name :: string
  vw_ClientConfig :: admissionv1_WebhookClientConfig
  vw_AdmissionReviewVersions :: "string list"
  vw_SideEffects :: "SideEffectClass option"
  vw_Rules :: "admissionv1_RuleWithOperations list"

record admissionv1_ValidatingWebhookConfiguration =
  vwc_TypeMeta :: metav1_TypeMeta
  vwc_ObjectMeta :: metav1_ObjectMeta
  vwc_Webhooks :: "admissionv1_ValidatingWebhook list"

text \<open>Any descriptor the module serializes, prints or submits.\<close>

datatype object =
    NamespaceObj corev1_Namespace
  | CSIDriverV1Obj storage_CSIDriver
  | CSIDriverV1beta1Obj storage_CSIDriver
  | StorageClassV1Obj storage_StorageClass
  | StorageClassV1beta1Obj storage_StorageClass
  | ServiceObj corev1_Service
  | DaemonSetObj appsv1_DaemonSet
  | DeploymentObj appsv1_Deployment
  | SecretObj corev1_Secret
  | ValidatingWebhookConfigurationObj admissionv1_ValidatingWebhookConfiguration

subsection \<open>Constants of the package that other files declare\<close>

text \<open>
  install.go uses package-level constants that are declared in other files of the
  package (and \<open>utils.TopologyDriverIdentity\<close>). Their values are not among the
  sources, so the model takes them as a parameter: every operation receives the record
  and every theorem holds for all values of it.
\<close>

record constants =
  CreatedByLabel :: string
  DirectCSIPluginName :: string
  DirectCSI :: string
  CSIDriver :: string
  TopologyDriverIdentity :: string
  conversionWebhookPortName :: string
  ConversionWebhookPort :: int
  webhookSelector :: string
  selectorValueEnabled :: string
  directCSISelector :: string
  healthZContainerPortPath :: string
  healthZContainerPortName :: string
  kubeletDirPath :: string
  csiRootPath :: string
  volumeNameSocketDir :: string
  volumeNameMountpointDir :: string
  volumeNameRegistrationDir :: string
  volumeNamePluginDir :: string
  volumeNameCSIRootDir :: string
  volumeNameSysDir :: string
  volumeNameDevDir :: string
  volumeNameRunUdevData :: string
  volumePathSocketDir :: string
  volumePathSysDir :: string
  volumePathDevDir :: string
  volumePathRunUdevData :: string
  conversionCACert :: string
  conversionKeyPair :: string
  conversionCADir :: string
  conversionCertsDir :: string
  nodeDriverRegistrarContainerName :: string
  directCSIContainerName :: string
  livenessProbeContainerName :: string
  csiProvisionerContainerName :: string
  CSIImageNodeDriverRegistrar :: string
  CSIImageLivenessProbe :: string
  CSIImageCSIProvisioner :: string
  logLevel :: int
  kubeNodeNameEnvVar :: string
  endpointEnvVarCSI :: string
  admissionControllerWebhookPort :: int
  admissionControllerWebhookName :: string
  validationControllerName :: string
  admissionWebhookSecretName :: string
  admissionControllerCertsDir :: string
  admissionCertsDir :: string
  admissionWehookDNSName :: string
  privateKeyFileName :: string
  publicCertFileName :: string
  caCertFileName :: string
  directCSIFinalizerDeleteProtection :: string
  validationWebhookConfigName :: string

subsection \<open>The orchestration API, the writer and the other collaborators\<close>

text \<open>
  A call to the orchestration API names the typed client it goes through (the resource,
  with the namespace for a namespaced one) and carries the submitted descriptor or the
  requested name.
\<close>

datatype resource =
    Namespaces
  | CSIDrivers_V1
  | CSIDrivers_V1beta1
  | StorageClasses_V1
  | StorageClasses_V1beta1
  | Services string
  | DaemonSets string
  | Deployments string
  | Secrets string
  | ValidatingWebhookConfigurations

datatype api_call =
    Create resource object
  | Get resource string
  | Update resource object

text \<open>
  The collaborators whose code is outside install.go: the name sanitizer, Go's
  \<open>filepath.Join\<close>, the certificate authority \<open>getCerts\<close>, the source of random
  strings (its \<open>k\<close>-th answer for a requested length), the schema versions the cluster
  advertises for a group and kind, the failures of the API (a transport or server error
  for the \<open>n\<close>-th call) and the failures of printing.
\<close>

record env =
  SanitizeKubeResourceName :: "string \<Rightarrow> string"
  filepath_Join :: "string list \<Rightarrow> string"
  getCerts :: "string list \<Rightarrow> error + (bytes \<times> bytes \<times> bytes)"
  randomStrings :: "nat \<Rightarrow> nat \<Rightarrow> string"
  apiVersions :: "string \<Rightarrow> string \<Rightarrow> string list"
  apiFault :: "nat \<Rightarrow> api_call \<Rightarrow> error option"
  logFault :: "object \<Rightarrow> error option"

text \<open>
  The state the module acts on: the trace of API calls issued so far, the objects the
  cluster stores (secrets by namespace and name, the rest by client and name), what has
  been serialized to the supplied writer, what has been printed, the two package-level
  CA bundle variables, and the number of random strings drawn.
\<close>

record world =
  calls :: "api_call list"
  secrets :: "string \<times> string \<Rightarrow> corev1_Secret option"
  objects :: "resource \<times> string \<Rightarrow> object option"
  written :: "object list"
  printed :: "object list"
  validationWebhookCaBundle :: bytes
  conversionWebhookCaBundle :: bytes
  randomCalls :: nat

text \<open>
  An \<open>io.Writer\<close> accepts the serialized object or fails with an error; what it
  accepts is appended to \<^const>\<open>written\<close>. The parameter of an operation is
  \<open>None\<close> for a nil writer.
\<close>

type_synonym writer = "object \<Rightarrow> error option"

definition object_name :: "object \<Rightarrow> string" where
  "object_name obj =
     (case obj of
        NamespaceObj x \<Rightarrow> om_Name (ns_ObjectMeta x)
      | CSIDriverV1Obj x \<Rightarrow> om_Name (cd_ObjectMeta x)
      | CSIDriverV1beta1Obj x \<Rightarrow> om_Name (cd_ObjectMeta x)
      | StorageClassV1Obj x \<Rightarrow> om_Name (sc_ObjectMeta x)
      | StorageClassV1beta1Obj x \<Rightarrow> om_Name (sc_ObjectMeta x)
      | ServiceObj x \<Rightarrow> om_Name (svc_ObjectMeta x)
      | DaemonSetObj x \<Rightarrow> om_Name (ds_ObjectMeta x)
      | DeploymentObj x \<Rightarrow> om_Name (dp_ObjectMeta x)
      | SecretObj x \<Rightarrow> om_Name (sec_ObjectMeta x)
      | ValidatingWebhookConfigurationObj x \<Rightarrow> om_Name (vwc_ObjectMeta x))"

text \<open>
  The create, get and update primitives of the orchestration client (an external
  collaborator; the specification describes them as typed operations keyed by namespace
  and name). Every call is recorded in the trace. A call fails with the injected fault
  if there is one; otherwise a create of a stored name fails with \<open>AlreadyExists\<close>,
  a get or update of a name that is not stored fails with \<open>NotFound\<close>, a create
  stores the object and an update replaces it.
\<close>

definition api_Create :: "env \<Rightarrow> resource \<Rightarrow> object \<Rightarrow> world \<Rightarrow> (error + object) \<times> world" where
  "api_Create k r obj w =
     (let w1 = w\<lparr>calls := calls w @ [Create r obj]\<rparr> in
      case apiFault k (length (calls w)) (Create r obj) of
        Some e \<Rightarrow> (Inl e, w1)
      | None \<Rightarrow>
          (case objects w (r, object_name obj) of
             Some old \<Rightarrow> (Inl AlreadyExists, w1)
           | None \<Rightarrow> (Inr obj, w1\<lparr>objects := (objects w)((r, object_name obj) \<mapsto> obj)\<rparr>)))"

definition Secrets_Create :: "env \<Rightarrow> string \<Rightarrow> corev1_Secret \<Rightarrow> world \<Rightarrow> (error + corev1_Secret) \<times> world" where
  "Secrets_Create k ns s w =
     (let w1 = w\<lparr>calls := calls w @ [Create (Secrets ns) (SecretObj s)]\<rparr> in
      case apiFault k (length (calls w)) (Create (Secrets ns) (SecretObj s)) of
        Some e \<Rightarrow> (Inl e, w1)
      | None \<Rightarrow>
          (case secrets w (ns, om_Name (sec_ObjectMeta s)) of
             Some old \<Rightarrow> (Inl AlreadyExists, w1)
           | None \<Rightarrow> (Inr s, w1\<lparr>secrets := (secrets w)((ns, om_Name (sec_ObjectMeta s)) \<mapsto> s)\<rparr>)))"

definition Secrets_Get :: "env \<Rightarrow> string \<Rightarrow> string \<Rightarrow> world \<Rightarrow> (error + corev1_Secret) \<times> world" where
  "Secrets_Get k ns name w =
     (let w1 = w\<lparr>calls := calls w @ [Get (Secrets ns) name]\<rparr> in
      case apiFault k (length (calls w)) (Get (Secrets ns) name) of
        Some e \<Rightarrow> (Inl e, w1)
      | None \<Rightarrow>
          (case secrets w (ns, name) of
             None \<Rightarrow> (Inl NotFound, w1)
           | Some s \<Rightarrow> (Inr s, w1)))"

definition Secrets_Update :: "env \<Rightarrow> string \<Rightarrow> corev1_Secret \<Rightarrow> world \<Rightarrow> (error + corev1_Secret) \<times> world" where
  "Secrets_Update k ns s w =
     (let w1 = w\<lparr>calls := calls w @ [Update (Secrets ns) (SecretObj s)]\<rparr> in
      case apiFault k (length (calls w)) (Update (Secrets ns) (SecretObj s)) of
        Some e \<Rightarrow> (Inl e, w1)
      | None \<Rightarrow>
          (case secrets w (ns, om_Name (sec_ObjectMeta s)) of
             None \<Rightarrow> (Inl NotFound, w1)
           | Some old \<Rightarrow> (Inr s, w1\<lparr>secrets := (secrets w)((ns, om_Name (sec_ObjectMeta s)) \<mapsto> s)\<rparr>)))"

text \<open>
  Modelled from the spec: \<open>utils.WriteObject\<close> is not among the sources. The
  specification: "If an output writer is supplied, serialize the descriptor to it".
  The source checks the error it returns, so a writer that fails is a branch.
\<close>

definition WriteObject :: "writer option \<Rightarrow> object \<Rightarrow> world \<Rightarrow> (error + unit) \<times> world" where
  "WriteObject writer obj w =
     (case writer of
        None \<Rightarrow> (Inr (), w)
      | Some wr \<Rightarrow>
          (case wr obj of
             Some e \<Rightarrow> (Inl e, w)
           | None \<Rightarrow> (Inr (), w\<lparr>written := written w @ [obj]\<rparr>)))"

text \<open>
  Modelled from the spec: \<open>utils.LogYAML\<close> is not among the sources. In dry-run mode
  the planned object is displayed and no API call is made; the source returns the error
  of \<open>LogYAML\<close>, so a failure to print is a branch.
\<close>

definition LogYAML :: "env \<Rightarrow> object \<Rightarrow> world \<Rightarrow> (error + unit) \<times> world" where
  "LogYAML k obj w =
     (case logFault k obj of
        Some e \<Rightarrow> (Inl e, w)
      | None \<Rightarrow> (Inr (), w\<lparr>printed := printed w @ [obj]\<rparr>))"

record schema_GroupVersionKind =
  gvk_Group :: string
  gvk_Version :: string
  gvk_Kind :: string

text \<open>
  Modelled from the spec: \<open>utils.GetGroupKindVersions\<close>, the version negotiator, is
  not among the sources. The specification: given a resource group and kind and an
  ordered preference list of candidate schema versions, return the highest-preference
  version the cluster offers; fail with \<open>UnsupportedVersion\<close> when none of the
  candidates is offered.
\<close>

definition GetGroupKindVersions ::
  "env \<Rightarrow> string \<Rightarrow> string \<Rightarrow> string list \<Rightarrow> error + schema_GroupVersionKind" where
  "GetGroupKindVersions k grp knd versions =
     (case find (\<lambda>v. v \<in> set (apiVersions k grp knd)) versions of
        None \<Rightarrow> Inl ErrKubeVersionNotSupported
      | Some v \<Rightarrow> Inr \<lparr>gvk_Group = grp, gvk_Version = v, gvk_Kind = knd\<rparr>)"

text \<open>
  Modelled from the spec: \<open>newRandomString\<close> is declared in another file of the
  package. The selector token is "sanitized name + random suffix"; each call draws the
  next string of the random source.
\<close>

definition newRandomString :: "env \<Rightarrow> nat \<Rightarrow> world \<Rightarrow> string \<times> world" where
  "newRandomString k n w = (randomStrings k (randomCalls w) n, w\<lparr>randomCalls := Suc (randomCalls w)\<rparr>)"

subsection \<open>Formatting\<close>

text \<open>The verb \<open>%d\<close> of \<open>fmt.Sprintf\<close>: the decimal digits of an integer.\<close>

definition digit_char :: "nat \<Rightarrow> char" where
  "digit_char d = ''0123456789'' ! (d mod 10)"

fun nat_digits :: "nat \<Rightarrow> string" where
  "nat_digits n = (if n < 10 then [digit_char n] else nat_digits (n div 10) @ [digit_char n])"

declare nat_digits.simps [simp del]

definition itoa :: "int \<Rightarrow> string" where
  "itoa i = (if i < 0 then CHR ''-'' # nat_digits (nat (- i)) else nat_digits (nat i))"

subsection \<open>Builders of the small descriptors\<close>

definition objMeta :: "constants \<Rightarrow> env \<Rightarrow> string \<Rightarrow> metav1_ObjectMeta" where
  "objMeta c k name =
     \<lparr>om_Name = SanitizeKubeResourceName k name,
      om_Namespace = SanitizeKubeResourceName k name,
      om_Annotations = [(CreatedByLabel c, DirectCSIPluginName c)],
      om_Labels = [(''app'', DirectCSI c), (''type'', CSIDriver c)],
      om_Finalizers = []\<rparr>"

definition getTopologySelectorTerm :: "constants \<Rightarrow> env \<Rightarrow> string \<Rightarrow> corev1_TopologySelectorTerm" where
  "getTopologySelectorTerm c k identity =
     \<lparr>tt_MatchLabelExpressions =
        [\<lparr>tr_Key = TopologyDriverIdentity c,
          tr_Values = [SanitizeKubeResourceName k identity]\<rparr>]\<rparr>"

definition getConversionWebhookDNSName :: "env \<Rightarrow> string \<Rightarrow> string" where
  "getConversionWebhookDNSName k identity =
     SanitizeKubeResourceName k identity @ ''.'' @ SanitizeKubeResourceName k identity @ ''.'' @ ''svc''"

definition getConversionHealthzHandler :: "constants \<Rightarrow> corev1_Handler" where
  "getConversionHealthzHandler c =
     \<lparr>h_HTTPGet = Some
        \<lparr>hg_Path = healthZContainerPortPath c,
         hg_Port = StrVal (conversionWebhookPortName c),
         hg_Scheme = Some URISchemeHTTPS\<rparr>\<rparr>"

definition getConversionHealthzURL :: "constants \<Rightarrow> env \<Rightarrow> string \<Rightarrow> string" where
  "getConversionHealthzURL c k identity =
     (let conversionWebhookDNSName = getConversionWebhookDNSName k identity
      in ''https://'' @ conversionWebhookDNSName @ '':'' @ itoa (ConversionWebhookPort c)
           @ healthZContainerPortPath c)"

definition newHostPathVolume :: "string \<Rightarrow> string \<Rightarrow> corev1_Volume" where
  "newHostPathVolume name path =
     (let hostPathType = HostPathDirectoryOrCreate;
          volumeSource =
            \<lparr>vs_HostPath = Some \<lparr>hp_Path = path, hp_Type = Some hostPathType\<rparr>,
             vs_Secret = None\<rparr>
      in \<lparr>vol_Name = name, vol_VolumeSource = volumeSource\<rparr>)"

definition newSecretVolume :: "string \<Rightarrow> string \<Rightarrow> corev1_Volume" where
  "newSecretVolume name secretName =
     (let volumeSource =
            \<lparr>vs_HostPath = None, vs_Secret = Some \<lparr>ss_SecretName = secretName\<rparr>\<rparr>
      in \<lparr>vol_Name = name, vol_VolumeSource = volumeSource\<rparr>)"

definition newDirectCSIPluginsSocketDir :: "env \<Rightarrow> string \<Rightarrow> string \<Rightarrow> string" where
  "newDirectCSIPluginsSocketDir k kubeletDir name =
     filepath_Join k [kubeletDir, ''plugins'', SanitizeKubeResourceName k name]"

definition newVolumeMount :: "string \<Rightarrow> string \<Rightarrow> bool \<Rightarrow> bool \<Rightarrow> corev1_VolumeMount" where
  "newVolumeMount name path bidirectional readOnly =
     (let mountProp = MountPropagationNone;
          mountProp = (if bidirectional then MountPropagationBidirectional else mountProp)
      in \<lparr>vm_Name = name,
          vm_ReadOnly = readOnly,
          vm_MountPath = path,
          vm_MountPropagation = Some mountProp\<rparr>)"

text \<open>
  \<open>metav1.AddLabelToSelector\<close> of the orchestration platform's library: an empty key
  leaves the selector as it is, any other key is assigned in the selector's label map.
\<close>

definition AddLabelToSelector :: "metav1_LabelSelector \<Rightarrow> string \<Rightarrow> string \<Rightarrow> metav1_LabelSelector" where
  "AddLabelToSelector selector labelKey labelValue =
     (if labelKey = [] then selector
      else selector\<lparr>ls_MatchLabels := AList.update labelKey labelValue (ls_MatchLabels selector)\<rparr>)"

definition generateSanitizedUniqueNameFrom :: "env \<Rightarrow> string \<Rightarrow> world \<Rightarrow> string \<times> world" where
  "generateSanitizedUniqueNameFrom k name w =
     (let sanitizedName = SanitizeKubeResourceName k name;
          sanitizedName =
            (if length sanitizedName \<ge> 255 then take 249 sanitizedName else sanitizedName);
          (shortUUID, w1) = newRandomString k 5 w
      in (sanitizedName @ ''-'' @ shortUUID, w1))"

subsection \<open>Namespace, CSI driver, storage class, service\<close>

text \<open>
  Every operation builds its descriptor as a literal in its body. The model names each
  literal (\<open>_descriptor\<close>) so that a theorem can say which object an operation writes,
  prints or submits; the operation follows the source from the first use of the literal.
  The two branches of \<open>CreateCSIDriver\<close> and of \<open>CreateStorageClass\<close> build the same
  literal up to the \<open>APIVersion\<close> string, which is the descriptor's last argument.
\<close>

definition CreateNamespace_descriptor :: "constants \<Rightarrow> env \<Rightarrow> string \<Rightarrow> corev1_Namespace" where
  "CreateNamespace_descriptor c k identity =
     \<lparr>ns_TypeMeta = \<lparr>Kind = ''Namespace'', APIVersion = ''v1''\<rparr>,
      ns_ObjectMeta = objMeta c k identity,
      ns_Spec_Finalizers = []\<rparr>"

definition CreateNamespace ::
  "constants \<Rightarrow> env \<Rightarrow> string \<Rightarrow> bool \<Rightarrow> writer option \<Rightarrow> world \<Rightarrow> (error + unit) \<times> world" where
  "CreateNamespace c k identity dryRun writer w =
     (let ns = CreateNamespace_descriptor c k identity
      in case WriteObject writer (NamespaceObj ns) w of
           (Inl err, w1) \<Rightarrow> (Inl err, w1)
         | (Inr u, w1) \<Rightarrow>
             if dryRun then LogYAML k (NamespaceObj ns) w1
             else (case api_Create k Namespaces (NamespaceObj ns) w1 of
                     (Inl err, w2) \<Rightarrow> (Inl err, w2)
                   | (Inr created, w2) \<Rightarrow> (Inr (), w2)))"

definition CreateCSIDriver_descriptor ::
  "constants \<Rightarrow> env \<Rightarrow> string \<Rightarrow> string \<Rightarrow> storage_CSIDriver" where
  "CreateCSIDriver_descriptor c k identity apiVersion =
     (let podInfoOnMount = True;
          attachRequired = False
      in \<lparr>cd_TypeMeta = \<lparr>Kind = ''CSIDriver'', APIVersion = apiVersion\<rparr>,
          cd_ObjectMeta = objMeta c k identity,
          cd_PodInfoOnMount = Some podInfoOnMount,
          cd_AttachRequired = Some attachRequired,
          cd_VolumeLifecycleModes = [VolumeLifecyclePersistent, VolumeLifecycleEphemeral]\<rparr>)"

definition CreateCSIDriver ::
  "constants \<Rightarrow> env \<Rightarrow> string \<Rightarrow> bool \<Rightarrow> writer option \<Rightarrow> world \<Rightarrow> (error + unit) \<times> world" where
  "CreateCSIDriver c k identity dryRun writer w =
     (case GetGroupKindVersions k ''storage.k8s.io'' ''CSIDriver'' [''v1'', ''v1beta1'', ''v1alpha1''] of
        Inl err \<Rightarrow> (Inl err, w)
      | Inr gvk \<Rightarrow>
          (let version = gvk_Version gvk in
           if version = ''v1'' then
             (let csiDriver = CreateCSIDriver_descriptor c k identity ''storage.k8s.io/v1''
              in case WriteObject writer (CSIDriverV1Obj csiDriver) w of
                   (Inl err, w1) \<Rightarrow> (Inl err, w1)
                 | (Inr u, w1) \<Rightarrow>
                     if dryRun then LogYAML k (CSIDriverV1Obj csiDriver) w1
                     else (case api_Create k CSIDrivers_V1 (CSIDriverV1Obj csiDriver) w1 of
                             (Inl err, w2) \<Rightarrow> (Inl err, w2)
                           | (Inr created, w2) \<Rightarrow> (Inr (), w2)))
           else if version = ''v1beta1'' then
             (let csiDriver = CreateCSIDriver_descriptor c k identity ''storage.k8s.io/v1beta1''
              in if dryRun then LogYAML k (CSIDriverV1beta1Obj csiDriver) w
                 else (case api_Create k CSIDrivers_V1beta1 (CSIDriverV1beta1Obj csiDriver) w of
                         (Inl err, w2) \<Rightarrow> (Inl err, w2)
                       | (Inr created, w2) \<Rightarrow> (Inr (), w2)))
           else (Inl ErrKubeVersionNotSupported, w)))"

definition CreateStorageClass_descriptor ::
  "constants \<Rightarrow> env \<Rightarrow> string \<Rightarrow> string \<Rightarrow> storage_StorageClass" where
  "CreateStorageClass_descriptor c k identity apiVersion =
     (let allowExpansion = False;
          allowedTopologies = [getTopologySelectorTerm c k identity];
          retainPolicy = PersistentVolumeReclaimDelete;
          bindingMode = VolumeBindingWaitForFirstConsumer
      in \<lparr>sc_TypeMeta = \<lparr>Kind = ''StorageClass'', APIVersion = apiVersion\<rparr>,
          sc_ObjectMeta = objMeta c k identity,
          sc_Provisioner = SanitizeKubeResourceName k identity,
          sc_AllowVolumeExpansion = Some allowExpansion,
          sc_VolumeBindingMode = Some bindingMode,
          sc_AllowedTopologies = allowedTopologies,
          sc_ReclaimPolicy = Some retainPolicy,
          sc_Parameters = [(''fstype'', ''xfs'')]\<rparr>)"

text \<open>The source asks the negotiator for the kind \<open>CSIDriver\<close> here too.\<close>

definition CreateStorageClass ::
  "constants \<Rightarrow> env \<Rightarrow> string \<Rightarrow> bool \<Rightarrow> writer option \<Rightarrow> world \<Rightarrow> (error + unit) \<times> world" where
  "CreateStorageClass c k identity dryRun writer w =
     (case GetGroupKindVersions k ''storage.k8s.io'' ''CSIDriver'' [''v1'', ''v1beta1'', ''v1alpha1''] of
        Inl err \<Rightarrow> (Inl err, w)
      | Inr gvk \<Rightarrow>
          (let version = gvk_Version gvk in
           if version = ''v1'' then
             (let storageClass = CreateStorageClass_descriptor c k identity ''storage.k8s.io/v1''
              in case WriteObject writer (StorageClassV1Obj storageClass) w of
                   (Inl err, w1) \<Rightarrow> (Inl err, w1)
                 | (Inr u, w1) \<Rightarrow>
                     if dryRun then LogYAML k (StorageClassV1Obj storageClass) w1
                     else (case api_Create k StorageClasses_V1 (StorageClassV1Obj storageClass) w1 of
                             (Inl err, w2) \<Rightarrow> (Inl err, w2)
                           | (Inr created, w2) \<Rightarrow> (Inr (), w2)))
           else if version = ''v1beta1'' then
             (let storageClass = CreateStorageClass_descriptor c k identity ''storage.k8s.io/v1beta1''
              in case WriteObject writer (StorageClassV1beta1Obj storageClass) w of
                   (Inl err, w1) \<Rightarrow> (Inl err, w1)
                 | (Inr u, w1) \<Rightarrow>
                     if dryRun then LogYAML k (StorageClassV1beta1Obj storageClass) w1
                     else (case api_Create k StorageClasses_V1beta1
                                  (StorageClassV1beta1Obj storageClass) w1 of
                             (Inl err, w2) \<Rightarrow> (Inl err, w2)
                           | (Inr created, w2) \<Rightarrow> (Inr (), w2)))
           else (Inl ErrKubeVersionNotSupported, w)))"

definition CreateService_descriptor :: "constants \<Rightarrow> env \<Rightarrow> string \<Rightarrow> corev1_Service" where
  "CreateService_descriptor c k identity =
     (let csiPort = \<lparr>sp_Name = ''unused'', sp_Port = 12345, sp_TargetPort = IntVal 0\<rparr>;
          webhookPort =
            \<lparr>sp_Name = conversionWebhookPortName c,
             sp_Port = ConversionWebhookPort c,
             sp_TargetPort = StrVal (conversionWebhookPortName c)\<rparr>
      in \<lparr>svc_TypeMeta = \<lparr>Kind = ''Service'', APIVersion = ''v1''\<rparr>,
          svc_ObjectMeta = objMeta c k identity,
          svc_Ports = [csiPort, webhookPort],
          svc_Selector = [(webhookSelector c, selectorValueEnabled c)]\<rparr>)"

definition CreateService ::
  "constants \<Rightarrow> env \<Rightarrow> string \<Rightarrow> bool \<Rightarrow> writer option \<Rightarrow> world \<Rightarrow> (error + unit) \<times> world" where
  "CreateService c k identity dryRun writer w =
     (let svc = CreateService_descriptor c k identity
      in case WriteObject writer (ServiceObj svc) w of
           (Inl err, w1) \<Rightarrow> (Inl err, w1)
         | (Inr u, w1) \<Rightarrow>
             if dryRun then LogYAML k (ServiceObj svc) w1
             else (case api_Create k (Services (SanitizeKubeResourceName k identity)) (ServiceObj svc) w1 of
                     (Inl err, w2) \<Rightarrow> (Inl err, w2)
                   | (Inr created, w2) \<Rightarrow> (Inr (), w2)))"

subsection \<open>Daemon set\<close>

text \<open>
  The descriptor that \<open>CreateDaemonSet\<close> builds (lines 343 to 538 of install.go), as a
  function of the arguments and of the generated selector value. The operation itself
  follows.
\<close>

definition CreateDaemonSet_descriptor ::
  "constants \<Rightarrow> env \<Rightarrow> string \<Rightarrow> string \<Rightarrow> string \<Rightarrow> string \<Rightarrow> bool \<Rightarrow> (string \<times> string) list
     \<Rightarrow> corev1_Toleration list \<Rightarrow> string \<Rightarrow> string \<Rightarrow> bool \<Rightarrow> string \<Rightarrow> appsv1_DaemonSet" where
  "CreateDaemonSet_descriptor c k identity directCSIContainerImage registry org loopBackOnly
       nodeSelector tolerations seccompProfileName apparmorProfileName enableDynamicDiscovery
       generatedSelectorValue =
     (let name = SanitizeKubeResourceName k identity;
          conversionHealthzURL = getConversionHealthzURL c k identity;
          privileged = True;
          securityContext = \<lparr>sctx_Privileged = Some privileged, sctx_SeccompProfile = None\<rparr>;
          securityContext =
            (if seccompProfileName \<noteq> [] then
               securityContext\<lparr>sctx_SeccompProfile := Some
                 \<lparr>scp_Type = SeccompProfileTypeLocalhost,
                  scp_LocalhostProfile = Some seccompProfileName\<rparr>\<rparr>
             else securityContext);
          volumes =
            [newHostPathVolume (volumeNameSocketDir c)
               (newDirectCSIPluginsSocketDir k (kubeletDirPath c) name),
             newHostPathVolume (volumeNameMountpointDir c) (kubeletDirPath c @ ''/pods''),
             newHostPathVolume (volumeNameRegistrationDir c) (kubeletDirPath c @ ''/plugins_registry''),
             newHostPathVolume (volumeNamePluginDir c) (kubeletDirPath c @ ''/plugins''),
             newHostPathVolume (volumeNameCSIRootDir c) (csiRootPath c),
             newSecretVolume (conversionCACert c) (conversionCACert c),
             newSecretVolume (conversionKeyPair c) (conversionKeyPair c)];
          volumeMounts =
            [newVolumeMount (volumeNameSocketDir c) ''/csi'' False False,
             newVolumeMount (volumeNameMountpointDir c) (kubeletDirPath c @ ''/pods'') True False,
             newVolumeMount (volumeNamePluginDir c) (kubeletDirPath c @ ''/plugins'') True False,
             newVolumeMount (volumeNameCSIRootDir c) (csiRootPath c) True False,
             newVolumeMount (conversionCACert c) (conversionCADir c) False False,
             newVolumeMount (conversionKeyPair c) (conversionCertsDir c) False False];
          volumes = volumes @ [newHostPathVolume (volumeNameSysDir c) (volumePathSysDir c)];
          volumeMounts =
            volumeMounts @ [newVolumeMount (volumeNameSysDir c) (volumePathSysDir c) True True];
          volumes =
            (if enableDynamicDiscovery then
               (volumes @ [newHostPathVolume (volumeNameDevDir c) (volumePathDevDir c)])
                 @ [newHostPathVolume (volumeNameRunUdevData c) (volumePathRunUdevData c)]
             else volumes);
          volumeMounts =
            (if enableDynamicDiscovery then
               (volumeMounts @ [newVolumeMount (volumeNameDevDir c) (volumePathDevDir c) True True])
                 @ [newVolumeMount (volumeNameRunUdevData c) (volumePathRunUdevData c) True True]
             else volumeMounts);
          nodeNameEnv =
            \<lparr>ev_Name = kubeNodeNameEnvVar c,
             ev_Value = [],
             ev_ValueFrom = Some
               \<lparr>evs_FieldRef = Some \<lparr>fs_APIVersion = ''v1'', fs_FieldPath = ''spec.nodeName''\<rparr>\<rparr>\<rparr>;
          args =
            [''--identity='' @ name,
             ''-v='' @ itoa (logLevel c),
             ''--endpoint=$('' @ endpointEnvVarCSI c @ '')'',
             ''--node-id=$('' @ kubeNodeNameEnvVar c @ '')'',
             ''--conversion-healthz-url='' @ conversionHealthzURL,
             ''--driver''];
          args = (if loopBackOnly then args @ [''--loopback-only''] else args);
          args = (if enableDynamicDiscovery then args @ [''--enable-dynamic-discovery''] else args);
          podSpec =
            \<lparr>ps_ServiceAccountName = name,
             ps_HostIPC = True,
             ps_HostPID = True,
             ps_Volumes = volumes,
             ps_Containers =
               [\<lparr>c_Name = nodeDriverRegistrarContainerName c,
                 c_Image = filepath_Join k [registry, org, CSIImageNodeDriverRegistrar c],
                 c_Args =
                   [''--v='' @ itoa (logLevel c),
                    ''--csi-address=unix:///csi/csi.sock'',
                    ''--kubelet-registration-path=''
                      @ (newDirectCSIPluginsSocketDir k (kubeletDirPath c) name @ ''/csi.sock'')],
                 c_Env = [nodeNameEnv],
                 c_VolumeMounts =
                   [newVolumeMount (volumeNameSocketDir c) (volumePathSocketDir c) False False,
                    newVolumeMount (volumeNameRegistrationDir c) ''/registration'' False False],
                 c_TerminationMessagePolicy = Some TerminationMessageFallbackToLogsOnError,
                 c_TerminationMessagePath = ''/var/log/driver-registrar-termination-log'',
                 c_SecurityContext = None,
                 c_Ports = [],
                 c_ReadinessProbe = None,
                 c_LivenessProbe = None\<rparr>,
                \<lparr>c_Name = directCSIContainerName c,
                 c_Image = filepath_Join k [registry, org, directCSIContainerImage],
                 c_Args = args,
                 c_Env =
                   [nodeNameEnv,
                    \<lparr>ev_Name = endpointEnvVarCSI c,
                     ev_Value = ''unix:///csi/csi.sock'',
                     ev_ValueFrom = None\<rparr>],
                 c_VolumeMounts = volumeMounts,
                 c_TerminationMessagePolicy = Some TerminationMessageFallbackToLogsOnError,
                 c_TerminationMessagePath = ''/var/log/driver-termination-log'',
                 c_SecurityContext = Some securityContext,
                 c_Ports =
                   [\<lparr>cp_ContainerPort = 9898, cp_Name = ''healthz'', cp_Protocol = ProtocolTCP\<rparr>,
                    \<lparr>cp_ContainerPort = ConversionWebhookPort c,
                     cp_Name = conversionWebhookPortName c,
                     cp_Protocol = ProtocolTCP\<rparr>],
                 c_ReadinessProbe = Some
                   \<lparr>pr_Handler = getConversionHealthzHandler c,
                    pr_InitialDelaySeconds = 0,
                    pr_TimeoutSeconds = 0,
                    pr_PeriodSeconds = 0,
                    pr_FailureThreshold = 0\<rparr>,
                 c_LivenessProbe = Some
                   \<lparr>pr_Handler =
                      \<lparr>h_HTTPGet = Some
                         \<lparr>hg_Path = healthZContainerPortPath c,
                          hg_Port = StrVal (healthZContainerPortName c),
                          hg_Scheme = None\<rparr>\<rparr>,
                    pr_InitialDelaySeconds = 300,
                    pr_TimeoutSeconds = 5,
                    pr_PeriodSeconds = 5,
                    pr_FailureThreshold = 5\<rparr>\<rparr>,
                \<lparr>c_Name = livenessProbeContainerName c,
                 c_Image = filepath_Join k [registry, org, CSIImageLivenessProbe c],
                 c_Args = [''--csi-address=/csi/csi.sock'', ''--health-port=9898''],
                 c_Env = [],
                 c_VolumeMounts =
                   [newVolumeMount (volumeNameSocketDir c) (volumePathSocketDir c) False False],
                 c_TerminationMessagePolicy = Some TerminationMessageFallbackToLogsOnError,
                 c_TerminationMessagePath = ''/var/log/driver-liveness-termination-log'',
                 c_SecurityContext = None,
                 c_Ports = [],
                 c_ReadinessProbe = None,
                 c_LivenessProbe = None\<rparr>],
             ps_NodeSelector = nodeSelector,
             ps_Tolerations = tolerations,
             ps_HostNetwork = False,
             ps_DNSPolicy = None\<rparr>;
          podSpec =
            (if enableDynamicDiscovery then
               podSpec\<lparr>ps_HostNetwork := True, ps_DNSPolicy := Some DNSClusterFirstWithHostNet\<rparr>
             else podSpec);
          annotations = [(CreatedByLabel c, DirectCSIPluginName c)];
          annotations =
            (if apparmorProfileName \<noteq> [] then
               AList.update ''container.apparmor.security.beta.kubernetes.io/direct-csi''
                 apparmorProfileName annotations
             else annotations)
      in \<lparr>ds_TypeMeta = \<lparr>Kind = ''DaemonSet'', APIVersion = ''apps/v1''\<rparr>,
          ds_ObjectMeta = objMeta c k identity,
          ds_Selector = Some
            (AddLabelToSelector \<lparr>ls_MatchLabels = []\<rparr> (directCSISelector c) generatedSelectorValue),
          ds_Template =
            \<lparr>pt_ObjectMeta =
               \<lparr>om_Name = SanitizeKubeResourceName k name,
                om_Namespace = SanitizeKubeResourceName k name,
                om_Annotations = annotations,
                om_Labels =
                  [(directCSISelector c, generatedSelectorValue),
                   (webhookSelector c, selectorValueEnabled c)],
                om_Finalizers = []\<rparr>,
             pt_Spec = podSpec\<rparr>\<rparr>)"

definition CreateDaemonSet ::
  "constants \<Rightarrow> env \<Rightarrow> string \<Rightarrow> string \<Rightarrow> bool \<Rightarrow> string \<Rightarrow> string \<Rightarrow> bool \<Rightarrow> (string \<times> string) list
     \<Rightarrow> corev1_Toleration list \<Rightarrow> string \<Rightarrow> string \<Rightarrow> bool \<Rightarrow> writer option \<Rightarrow> world
     \<Rightarrow> (error + unit) \<times> world" where
  "CreateDaemonSet c k identity directCSIContainerImage dryRun registry org loopBackOnly
       nodeSelector tolerations seccompProfileName apparmorProfileName enableDynamicDiscovery
       writer w =
     (let name = SanitizeKubeResourceName k identity;
          (generatedSelectorValue, w0) = generateSanitizedUniqueNameFrom k name w;
          daemonset =
            CreateDaemonSet_descriptor c k identity directCSIContainerImage registry org
              loopBackOnly nodeSelector tolerations seccompProfileName apparmorProfileName
              enableDynamicDiscovery generatedSelectorValue
      in case WriteObject writer (DaemonSetObj daemonset) w0 of
           (Inl err, w1) \<Rightarrow> (Inl err, w1)
         | (Inr u, w1) \<Rightarrow>
             if dryRun then LogYAML k (DaemonSetObj daemonset) w1
             else (case api_Create k (DaemonSets (SanitizeKubeResourceName k identity))
                          (DaemonSetObj daemonset) w1 of
                     (Inl err, w2) \<Rightarrow> (Inl err, w2)
                   | (Inr created, w2) \<Rightarrow> (Inr (), w2)))"

subsection \<open>Controller service, controller secret, deployment\<close>

definition CreateControllerService_descriptor ::
  "constants \<Rightarrow> env \<Rightarrow> string \<Rightarrow> string \<Rightarrow> corev1_Service" where
  "CreateControllerService_descriptor c k generatedSelectorValue identity =
     (let admissionWebhookPort =
            \<lparr>sp_Name = [],
             sp_Port = admissionControllerWebhookPort c,
             sp_TargetPort = StrVal (admissionControllerWebhookName c)\<rparr>
      in \<lparr>svc_TypeMeta = \<lparr>Kind = ''Service'', APIVersion = ''v1''\<rparr>,
          svc_ObjectMeta =
            \<lparr>om_Name = validationControllerName c,
             om_Namespace = SanitizeKubeResourceName k identity,
             om_Annotations = [],
             om_Labels = [],
             om_Finalizers = []\<rparr>,
          svc_Ports = [admissionWebhookPort],
          svc_Selector = [(directCSISelector c, generatedSelectorValue)]\<rparr>)"

definition CreateControllerService ::
  "constants \<Rightarrow> env \<Rightarrow> string \<Rightarrow> string \<Rightarrow> bool \<Rightarrow> world \<Rightarrow> (error + unit) \<times> world" where
  "CreateControllerService c k generatedSelectorValue identity dryRun w =
     (let svc = CreateControllerService_descriptor c k generatedSelectorValue identity
      in if dryRun then LogYAML k (ServiceObj svc) w
         else (case api_Create k (Services (SanitizeKubeResourceName k identity)) (ServiceObj svc) w of
                 (Inl err, w2) \<Rightarrow> (Inl err, w2)
               | (Inr created, w2) \<Rightarrow> (Inr (), w2)))"

definition CreateControllerSecret_descriptor ::
  "constants \<Rightarrow> env \<Rightarrow> string \<Rightarrow> bytes \<Rightarrow> bytes \<Rightarrow> corev1_Secret" where
  "CreateControllerSecret_descriptor c k identity publicCertBytes privateKeyBytes =
     (let getCertsDataMap =
            AList.update (publicCertFileName c) publicCertBytes
              (AList.update (privateKeyFileName c) privateKeyBytes [])
      in \<lparr>sec_TypeMeta = \<lparr>Kind = ''Secret'', APIVersion = ''v1''\<rparr>,
          sec_ObjectMeta =
            \<lparr>om_Name = admissionWebhookSecretName c,
             om_Namespace = SanitizeKubeResourceName k identity,
             om_Annotations = [],
             om_Labels = [],
             om_Finalizers = []\<rparr>,
          sec_Data = getCertsDataMap\<rparr>)"

definition CreateControllerSecret ::
  "constants \<Rightarrow> env \<Rightarrow> string \<Rightarrow> bytes \<Rightarrow> bytes \<Rightarrow> bool \<Rightarrow> world \<Rightarrow> (error + unit) \<times> world" where
  "CreateControllerSecret c k identity publicCertBytes privateKeyBytes dryRun w =
     (let secret = CreateControllerSecret_descriptor c k identity publicCertBytes privateKeyBytes
      in if dryRun then LogYAML k (SecretObj secret) w
         else (case Secrets_Create k (SanitizeKubeResourceName k identity) secret w of
                 (Inl err, w2) \<Rightarrow> (Inl err, w2)
               | (Inr created, w2) \<Rightarrow> (Inr (), w2)))"

text \<open>
  The descriptor that \<open>CreateDeployment\<close> builds (lines 623 to 775 of install.go), as a
  function of the arguments and of the generated selector value.
\<close>

definition CreateDeployment_descriptor ::
  "constants \<Rightarrow> env \<Rightarrow> string \<Rightarrow> string \<Rightarrow> string \<Rightarrow> string \<Rightarrow> string \<Rightarrow> appsv1_Deployment" where
  "CreateDeployment_descriptor c k identity directCSIContainerImage registry org
       generatedSelectorValue =
     (let name = SanitizeKubeResourceName k identity;
          conversionHealthzURL = getConversionHealthzURL c k identity;
          replicas = 3;
          privileged = True;
          podSpec =
            \<lparr>ps_ServiceAccountName = name,
             ps_HostIPC = False,
             ps_HostPID = False,
             ps_Volumes =
               [newHostPathVolume (volumeNameSocketDir c)
                  (newDirectCSIPluginsSocketDir k (kubeletDirPath c) (name @ ''-controller'')),
                newSecretVolume (admissionControllerCertsDir c) (admissionWebhookSecretName c),
                newSecretVolume (conversionCACert c) (conversionCACert c),
                newSecretVolume (conversionKeyPair c) (conversionKeyPair c)],
             ps_Containers =
               [\<lparr>c_Name = csiProvisionerContainerName c,
                 c_Image = filepath_Join k [registry, org, CSIImageCSIProvisioner c],
                 c_Args =
                   [''--v='' @ itoa (logLevel c),
                    ''--timeout=300s'',
                    ''--csi-address=$('' @ endpointEnvVarCSI c @ '')'',
                    ''--leader-election'',
                    ''--feature-gates=Topology=true'',
                    ''--strict-topology''],
                 c_Env =
                   [\<lparr>ev_Name = endpointEnvVarCSI c,
                     ev_Value = ''unix:///csi/csi.sock'',
                     ev_ValueFrom = None\<rparr>],
                 c_VolumeMounts =
                   [newVolumeMount (volumeNameSocketDir c) (volumePathSocketDir c) False False],
                 c_TerminationMessagePolicy = Some TerminationMessageFallbackToLogsOnError,
                 c_TerminationMessagePath = ''/var/log/controller-provisioner-termination-log'',
                 c_SecurityContext = Some
                   \<lparr>sctx_Privileged = Some privileged, sctx_SeccompProfile = None\<rparr>,
                 c_Ports = [],
                 c_ReadinessProbe = None,
                 c_LivenessProbe = None\<rparr>,
                \<lparr>c_Name = directCSIContainerName c,
                 c_Image = filepath_Join k [registry, org, directCSIContainerImage],
                 c_Args =
                   [''-v='' @ itoa (logLevel c),
                    ''--identity='' @ name,
                    ''--endpoint=$('' @ endpointEnvVarCSI c @ '')'',
                    ''--conversion-healthz-url='' @ conversionHealthzURL,
                    ''--controller''],
                 c_Env =
                   [\<lparr>ev_Name = kubeNodeNameEnvVar c,
                     ev_Value = [],
                     ev_ValueFrom = Some
                       \<lparr>evs_FieldRef = Some
                          \<lparr>fs_APIVersion = ''v1'', fs_FieldPath = ''spec.nodeName''\<rparr>\<rparr>\<rparr>,
                    \<lparr>ev_Name = endpointEnvVarCSI c,
                     ev_Value = ''unix:///csi/csi.sock'',
                     ev_ValueFrom = None\<rparr>],
                 c_VolumeMounts =
                   [newVolumeMount (volumeNameSocketDir c) (volumePathSocketDir c) False False,
                    newVolumeMount (admissionControllerCertsDir c) (admissionCertsDir c) False False,
                    newVolumeMount (conversionCACert c) (conversionCADir c) False False,
                    newVolumeMount (conversionKeyPair c) (conversionCertsDir c) False False],
                 c_TerminationMessagePolicy = None,
                 c_TerminationMessagePath = [],
                 c_SecurityContext = Some
                   \<lparr>sctx_Privileged = Some privileged, sctx_SeccompProfile = None\<rparr>,
                 c_Ports =
                   [\<lparr>cp_ContainerPort = admissionControllerWebhookPort c,
                     cp_Name = admissionControllerWebhookName c,
                     cp_Protocol = ProtocolTCP\<rparr>,
                    \<lparr>cp_ContainerPort = 9898, cp_Name = ''healthz'', cp_Protocol = ProtocolTCP\<rparr>,
                    \<lparr>cp_ContainerPort = ConversionWebhookPort c,
                     cp_Name = conversionWebhookPortName c,
                     cp_Protocol = ProtocolTCP\<rparr>],
                 c_ReadinessProbe = Some
                   \<lparr>pr_Handler = getConversionHealthzHandler c,
                    pr_InitialDelaySeconds = 0,
                    pr_TimeoutSeconds = 0,
                    pr_PeriodSeconds = 0,
                    pr_FailureThreshold = 0\<rparr>,
                 c_LivenessProbe = None\<rparr>],
             ps_NodeSelector = [],
             ps_Tolerations = [],
             ps_HostNetwork = False,
             ps_DNSPolicy = None\<rparr>;
          deployment =
            \<lparr>dp_TypeMeta = \<lparr>Kind = ''Deployment'', APIVersion = ''apps/v1''\<rparr>,
             dp_ObjectMeta = objMeta c k identity,
             dp_Replicas = Some replicas,
             dp_Selector = Some
               (AddLabelToSelector \<lparr>ls_MatchLabels = []\<rparr> (directCSISelector c) generatedSelectorValue),
             dp_Template =
               \<lparr>pt_ObjectMeta =
                  \<lparr>om_Name = SanitizeKubeResourceName k name,
                   om_Namespace = SanitizeKubeResourceName k name,
                   om_Annotations = [(CreatedByLabel c, DirectCSIPluginName c)],
                   om_Labels =
                     [(directCSISelector c, generatedSelectorValue),
                      (webhookSelector c, selectorValueEnabled c)],
                   om_Finalizers = []\<rparr>,
                pt_Spec = podSpec\<rparr>\<rparr>
      in deployment\<lparr>dp_ObjectMeta := (dp_ObjectMeta deployment)
           \<lparr>om_Finalizers :=
              [SanitizeKubeResourceName k identity @ directCSIFinalizerDeleteProtection c]\<rparr>\<rparr>)"

definition CreateDeployment ::
  "constants \<Rightarrow> env \<Rightarrow> string \<Rightarrow> string \<Rightarrow> bool \<Rightarrow> string \<Rightarrow> string \<Rightarrow> writer option \<Rightarrow> world
     \<Rightarrow> (error + unit) \<times> world" where
  "CreateDeployment c k identity directCSIContainerImage dryRun registry org writer w =
     (let name = SanitizeKubeResourceName k identity;
          (generatedSelectorValue, w0) = generateSanitizedUniqueNameFrom k name w
      in case getCerts k [admissionWehookDNSName c] of
           Inl certErr \<Rightarrow> (Inl certErr, w0)
         | Inr (caCertBytes, publicCertBytes, privateKeyBytes) \<Rightarrow>
             (let w1 = w0\<lparr>validationWebhookCaBundle := caCertBytes\<rparr> in
              case CreateControllerSecret c k identity publicCertBytes privateKeyBytes dryRun w1 of
                (r, w2) \<Rightarrow>
                  (case (case r of
                           Inl err \<Rightarrow> if \<not> IsAlreadyExists err then Some err else None
                         | Inr u \<Rightarrow> None) of
                     Some err \<Rightarrow> (Inl err, w2)
                   | None \<Rightarrow>
                       (let deployment =
                              CreateDeployment_descriptor c k identity directCSIContainerImage
                                registry org generatedSelectorValue
                        in case WriteObject writer (DeploymentObj deployment) w2 of
                             (Inl err, w3) \<Rightarrow> (Inl err, w3)
                           | (Inr u, w3) \<Rightarrow>
                               if dryRun then LogYAML k (DeploymentObj deployment) w3
                               else (case api_Create k (Deployments (SanitizeKubeResourceName k identity))
                                            (DeploymentObj deployment) w3 of
                                       (Inl err, w4) \<Rightarrow> (Inl err, w4)
                                     | (Inr created, w4) \<Rightarrow>
                                         (case CreateControllerService c k generatedSelectorValue
                                                 identity dryRun w4 of
                                            (Inl err, w5) \<Rightarrow> (Inl err, w5)
                                          | (Inr u2, w5) \<Rightarrow> (Inr (), w5)))))))"

subsection \<open>Validating webhook registration\<close>

text \<open>
  \<open>getDriveValidatingWebhookConfig\<close> reads the package-level variable
  \<open>validationWebhookCaBundle\<close>, so the model passes the state.
\<close>

definition getDriveValidatingWebhookConfig ::
  "constants \<Rightarrow> env \<Rightarrow> string \<Rightarrow> world \<Rightarrow> admissionv1_ValidatingWebhookConfiguration" where
  "getDriveValidatingWebhookConfig c k identity w =
     (let name = SanitizeKubeResourceName k identity;
          getServiceRef =
            (let path = ''/validatedrive''
             in \<lparr>sr_Namespace = name, sr_Name = validationControllerName c, sr_Path = Some path\<rparr>);
          getClientConfig =
            \<lparr>wcc_Service = Some getServiceRef, wcc_CABundle = validationWebhookCaBundle w\<rparr>;
          getValidationRules =
            [\<lparr>rwo_Operations = [admissionv1_Update],
              rwo_Rule =
                \<lparr>r_APIGroups = [''*''],
                 r_APIVersions = [''*''],
                 r_Resources = [''directcsidrives'']\<rparr>\<rparr>];
          getValidatingWebhooks =
            (let supportedReviewVersions = [''v1'', ''v1beta1'', ''v1beta2'', ''v1beta3''];
                 sideEffectClass = SideEffectClassNone
             in [\<lparr>vw_Name = validationWebhookConfigName c,
                  vw_ClientConfig = getClientConfig,
                  vw_AdmissionReviewVersions = supportedReviewVersions,
                  vw_SideEffects = Some sideEffectClass,
                  vw_Rules = getValidationRules\<rparr>]);
          validatingWebhookConfiguration =
            \<lparr>vwc_TypeMeta =
               \<lparr>Kind = ''ValidatingWebhookConfiguration'',
                APIVersion = ''admissionregistration.k8s.io/v1''\<rparr>,
             vwc_ObjectMeta =
               \<lparr>om_Name = validationWebhookConfigName c,
                om_Namespace = name,
                om_Annotations = [],
                om_Labels = [],
                om_Finalizers =
                  [SanitizeKubeResourceName k identity @ directCSIFinalizerDeleteProtection c]\<rparr>,
             vwc_Webhooks = getValidatingWebhooks\<rparr>
      in validatingWebhookConfiguration)"

definition RegisterDriveValidationRules ::
  "constants \<Rightarrow> env \<Rightarrow> string \<Rightarrow> bool \<Rightarrow> writer option \<Rightarrow> world \<Rightarrow> (error + unit) \<times> world" where
  "RegisterDriveValidationRules c k identity dryRun writer w =
     (let driveValidatingWebhookConfig = getDriveValidatingWebhookConfig c k identity w
      in case WriteObject writer (ValidatingWebhookConfigurationObj driveValidatingWebhookConfig) w of
           (Inl err, w1) \<Rightarrow> (Inl err, w1)
         | (Inr u, w1) \<Rightarrow>
             if dryRun then LogYAML k (ValidatingWebhookConfigurationObj driveValidatingWebhookConfig) w1
             else (case api_Create k ValidatingWebhookConfigurations
                          (ValidatingWebhookConfigurationObj driveValidatingWebhookConfig) w1 of
                     (Inl err, w2) \<Rightarrow> (Inl err, w2)
                   | (Inr created, w2) \<Rightarrow> (Inr (), w2)))"

subsection \<open>Conversion webhook secrets\<close>

definition CreateOrUpdateConversionKeyPairSecret_descriptor ::
  "constants \<Rightarrow> env \<Rightarrow> string \<Rightarrow> bytes \<Rightarrow> bytes \<Rightarrow> corev1_Secret" where
  "CreateOrUpdateConversionKeyPairSecret_descriptor c k identity publicCertBytes privateKeyBytes =
     (let getCertsDataMap =
            AList.update (publicCertFileName c) publicCertBytes
              (AList.update (privateKeyFileName c) privateKeyBytes [])
      in \<lparr>sec_TypeMeta = \<lparr>Kind = ''Secret'', APIVersion = ''v1''\<rparr>,
          sec_ObjectMeta =
            \<lparr>om_Name = conversionKeyPair c,
             om_Namespace = SanitizeKubeResourceName k identity,
             om_Annotations = [],
             om_Labels = [],
             om_Finalizers = []\<rparr>,
          sec_Data = getCertsDataMap\<rparr>)"

definition CreateOrUpdateConversionKeyPairSecret ::
  "constants \<Rightarrow> env \<Rightarrow> string \<Rightarrow> bytes \<Rightarrow> bytes \<Rightarrow> bool \<Rightarrow> writer option \<Rightarrow> world
     \<Rightarrow> (error + unit) \<times> world" where
  "CreateOrUpdateConversionKeyPairSecret c k identity publicCertBytes privateKeyBytes dryRun writer w =
     (let secretsClient = SanitizeKubeResourceName k identity;
          secret =
            CreateOrUpdateConversionKeyPairSecret_descriptor c k identity publicCertBytes
              privateKeyBytes
      in case WriteObject writer (SecretObj secret) w of
           (Inl err, w1) \<Rightarrow> (Inl err, w1)
         | (Inr u, w1) \<Rightarrow>
             if dryRun then LogYAML k (SecretObj secret) w1
             else (case Secrets_Get k secretsClient (conversionKeyPair c) w1 of
                     (Inl err, w2) \<Rightarrow>
                       if \<not> IsNotFound err then (Inl err, w2)
                       else (case Secrets_Create k secretsClient secret w2 of
                               (Inl err2, w3) \<Rightarrow> (Inl err2, w3)
                             | (Inr created, w3) \<Rightarrow> (Inr (), w3))
                   | (Inr existingSecret, w2) \<Rightarrow>
                       (let existingSecret = existingSecret\<lparr>sec_Data := sec_Data secret\<rparr>
                        in case Secrets_Update k secretsClient existingSecret w2 of
                             (Inl err, w3) \<Rightarrow> (Inl err, w3)
                           | (Inr updated, w3) \<Rightarrow> (Inr (), w3))))"

definition CreateOrUpdateConversionCACertSecret_descriptor ::
  "constants \<Rightarrow> env \<Rightarrow> string \<Rightarrow> bytes \<Rightarrow> corev1_Secret" where
  "CreateOrUpdateConversionCACertSecret_descriptor c k identity caCertBytes =
     (let getCertsDataMap = AList.update (caCertFileName c) caCertBytes []
      in \<lparr>sec_TypeMeta = \<lparr>Kind = ''Secret'', APIVersion = ''v1''\<rparr>,
          sec_ObjectMeta =
            \<lparr>om_Name = conversionCACert c,
             om_Namespace = SanitizeKubeResourceName k identity,
             om_Annotations = [],
             om_Labels = [],
             om_Finalizers = []\<rparr>,
          sec_Data = getCertsDataMap\<rparr>)"

definition CreateOrUpdateConversionCACertSecret ::
  "constants \<Rightarrow> env \<Rightarrow> string \<Rightarrow> bytes \<Rightarrow> bool \<Rightarrow> writer option \<Rightarrow> world
     \<Rightarrow> (error + unit) \<times> world" where
  "CreateOrUpdateConversionCACertSecret c k identity caCertBytes dryRun writer w =
     (let secretsClient = SanitizeKubeResourceName k identity;
          secret = CreateOrUpdateConversionCACertSecret_descriptor c k identity caCertBytes
      in case WriteObject writer (SecretObj secret) w of
           (Inl err, w1) \<Rightarrow> (Inl err, w1)
         | (Inr u, w1) \<Rightarrow>
             if dryRun then LogYAML k (SecretObj secret) w1
             else (case Secrets_Get k secretsClient (conversionCACert c) w1 of
                     (Inl err, w2) \<Rightarrow>
                       if \<not> IsNotFound err then (Inl err, w2)
                       else (case Secrets_Create k secretsClient secret w2 of
                               (Inl err2, w3) \<Rightarrow> (Inl err2, w3)
                             | (Inr created, w3) \<Rightarrow> (Inr (), w3))
                   | (Inr existingSecret, w2) \<Rightarrow>
                       (let existingSecret = existingSecret\<lparr>sec_Data := sec_Data secret\<rparr>
                        in case Secrets_Update k secretsClient existingSecret w2 of
                             (Inl err, w3) \<Rightarrow> (Inl err, w3)
                           | (Inr updated, w3) \<Rightarrow> (Inr (), w3))))"

text \<open>
  \<open>GetConversionCABundle\<close> returns the bundle or an error (the source pairs every
  error with an empty byte slice). The loop over the secret's data returns the value
  stored under \<open>caCertFileName\<close>, a lookup in the map.
\<close>

definition GetConversionCABundle ::
  "constants \<Rightarrow> env \<Rightarrow> string \<Rightarrow> bool \<Rightarrow> world \<Rightarrow> (error + bytes) \<times> world" where
  "GetConversionCABundle c k identity dryRun w =
     (let getCABundlerFromGlobal =
            (\<lambda>w'. if length (conversionWebhookCaBundle w') = 0 then Inl errEmptyCABundle
                  else Inr (conversionWebhookCaBundle w'))
      in case Secrets_Get k (SanitizeKubeResourceName k identity) (conversionCACert c) w of
           (Inl err, w1) \<Rightarrow>
             if IsNotFound err \<and> dryRun then (getCABundlerFromGlobal w1, w1)
             else (Inl err, w1)
         | (Inr secret, w1) \<Rightarrow>
             (case map_of (sec_Data secret) (caCertFileName c) of
                Some v \<Rightarrow> (Inr v, w1)
              | None \<Rightarrow> (Inl errEmptyCABundle, w1)))"

definition checkConversionSecrets ::
  "constants \<Rightarrow> env \<Rightarrow> string \<Rightarrow> world \<Rightarrow> (error + unit) \<times> world" where
  "checkConversionSecrets c k identity w =
     (let secretsClient = SanitizeKubeResourceName k identity
      in case Secrets_Get k secretsClient (conversionKeyPair c) w of
           (Inl err, w1) \<Rightarrow> (Inl err, w1)
         | (Inr s1, w1) \<Rightarrow>
             (case Secrets_Get k secretsClient (conversionCACert c) w1 of
                (Inl err, w2) \<Rightarrow> (Inl err, w2)
              | (Inr s2, w2) \<Rightarrow> (Inr (), w2)))"

definition CreateConversionWebhookSecrets ::
  "constants \<Rightarrow> env \<Rightarrow> string \<Rightarrow> bool \<Rightarrow> writer option \<Rightarrow> world \<Rightarrow> (error + unit) \<times> world" where
  "CreateConversionWebhookSecrets c k identity dryRun writer w =
     (case checkConversionSecrets c k identity w of
        (Inr u, w1) \<Rightarrow> (Inr (), w1)
      | (Inl err, w1) \<Rightarrow>
          if \<not> IsNotFound err then (Inl err, w1)
          else (case getCerts k [getConversionWebhookDNSName k identity] of
                  Inl certErr \<Rightarrow> (Inl certErr, w1)
                | Inr (caCertBytes, publicCertBytes, privateKeyBytes) \<Rightarrow>
                    (let w2 = w1\<lparr>conversionWebhookCaBundle := caCertBytes\<rparr> in
                     case CreateOrUpdateConversionKeyPairSecret c k identity publicCertBytes
                            privateKeyBytes dryRun writer w2 of
                       (Inl err2, w3) \<Rightarrow> (Inl err2, w3)
                     | (Inr u2, w3) \<Rightarrow>
                         CreateOrUpdateConversionCACertSecret c k identity caCertBytes dryRun
                           writer w3)))"

subsection \<open>The cluster as an operation leaves it\<close>

text \<open>
  An operation that goes from \<open>w\<close> to \<open>w'\<close> has left the cluster untouched when it issued
  no call to the API, so that the trace and what the cluster stores are as they were.
\<close>

definition untouched :: "world \<Rightarrow> world \<Rightarrow> bool" where
  "untouched w w' \<longleftrightarrow> calls w' = calls w \<and> secrets w' = secrets w \<and> objects w' = objects w"

section \<open>Sample inputs\<close>

text \<open>
  Concrete values at which the theorems below are instantiated: a set of constants, a
  set of collaborators for a cluster that offers the \<open>v1\<close> schemas and never fails,
  and the state of a fresh process in front of an empty cluster. The sample sanitizer
  leaves a name that is already legal as it is, and the sample random source repeats
  itself.
\<close>

definition sampleConstants :: constants where
  "sampleConstants =
     \<lparr>CreatedByLabel = ''created-by'',
      DirectCSIPluginName = ''kubectl-direct-csi'',
      DirectCSI = ''direct.csi.min.io'',
      CSIDriver = ''CSIDriver'',
      TopologyDriverIdentity = ''direct.csi.min.io/identity'',
      conversionWebhookPortName = ''convwebhook'',
      ConversionWebhookPort = 30443,
      webhookSelector = ''selector.direct.csi.min.io.webhook'',
      selectorValueEnabled = ''enabled'',
      directCSISelector = ''selector.direct.csi.min.io'',
      healthZContainerPortPath = ''/healthz'',
      healthZContainerPortName = ''healthz'',
      kubeletDirPath = ''/var/lib/kubelet'',
      csiRootPath = ''/var/lib/direct-csi/'',
      volumeNameSocketDir = ''socket-dir'',
      volumeNameMountpointDir = ''mountpoint-dir'',
      volumeNameRegistrationDir = ''registration-dir'',
      volumeNamePluginDir = ''plugins-dir'',
      volumeNameCSIRootDir = ''direct-csi-common-root'',
      volumeNameSysDir = ''sysfs'',
      volumeNameDevDir = ''devfs'',
      volumeNameRunUdevData = ''run-udev-data-dir'',
      volumePathSocketDir = ''/csi'',
      volumePathSysDir = ''/sys'',
      volumePathDevDir = ''/dev'',
      volumePathRunUdevData = ''/run/udev/data'',
      conversionCACert = ''conversion-ca-cert'',
      conversionKeyPair = ''conversion-key-pair'',
      conversionCADir = ''/etc/conversion/CAs'',
      conversionCertsDir = ''/etc/conversion/certs'',
      nodeDriverRegistrarContainerName = ''node-driver-registrar'',
      directCSIContainerName = ''direct-csi'',
      livenessProbeContainerName = ''liveness-probe'',
      csiProvisionerContainerName = ''csi-provisioner'',
      CSIImageNodeDriverRegistrar = ''csi-node-driver-registrar:v2.2.0'',
      CSIImageLivenessProbe = ''livenessprobe:v2.2.0'',
      CSIImageCSIProvisioner = ''csi-provisioner:v2.2.0'',
      logLevel = 3,
      kubeNodeNameEnvVar = ''KUBE_NODE_NAME'',
      endpointEnvVarCSI = ''CSI_ENDPOINT'',
      admissionControllerWebhookPort = 443,
      admissionControllerWebhookName = ''validatinghook'',
      validationControllerName = ''directcsi-validation-controller'',
      admissionWebhookSecretName = ''validationwebhookcerts'',
      admissionControllerCertsDir = ''admission-webhook-certs'',
      admissionCertsDir = ''/etc/admission/certs'',
      admissionWehookDNSName = ''directcsi-validation-controller.direct-csi-min-io.svc'',
      privateKeyFileName = ''key.pem'',
      publicCertFileName = ''cert.pem'',
      caCertFileName = ''ca.pem'',
      directCSIFinalizerDeleteProtection = ''/delete-protection'',
      validationWebhookConfigName = ''drive.validation.controller''\<rparr>"

fun samplePathJoin :: "string list \<Rightarrow> string" where
  "samplePathJoin [] = []"
| "samplePathJoin [x] = x"
| "samplePathJoin (x # y # ys) = x @ ''/'' @ samplePathJoin (y # ys)"

definition sampleEnv :: env where
  "sampleEnv =
     \<lparr>SanitizeKubeResourceName = (\<lambda>name. name),
      filepath_Join = samplePathJoin,
      getCerts = (\<lambda>dnsNames. Inr ([1, 2], [3, 4], [5, 6])),
      randomStrings = (\<lambda>n len. replicate len (CHR ''x'')),
      apiVersions = (\<lambda>grp knd. [''v1'']),
      apiFault = (\<lambda>n call. None),
      logFault = (\<lambda>obj. None)\<rparr>"

definition sampleWorld :: world where
  "sampleWorld =
     \<lparr>calls = [],
      secrets = (\<lambda>key. None),
      objects = (\<lambda>key. None),
      written = [],
      printed = [],
      validationWebhookCaBundle = [],
      conversionWebhookCaBundle = [],
      randomCalls = 0\<rparr>"

text \<open>A writer that accepts every object.\<close>

definition sampleWriter :: writer where
  "sampleWriter = (\<lambda>obj. None)"




definition refusingEnv :: env where
  "refusingEnv = sampleEnv\<lparr>apiFault := (\<lambda>n call. Some (OtherError ''forbidden''))\<rparr>"

text \<open>
  A cluster that already stores the two conversion secrets, with stale data and a
  label of their own.
\<close>

definition storedKeyPairSecret :: corev1_Secret where
  "storedKeyPairSecret =
     \<lparr>sec_TypeMeta = \<lparr>Kind = ''Secret'', APIVersion = ''v1''\<rparr>,
      sec_ObjectMeta =
        \<lparr>om_Name = ''conversion-key-pair'',
         om_Namespace = ''direct-csi-min-io'',
         om_Annotations = [],
         om_Labels = [(''owner'', ''operator'')],
         om_Finalizers = []\<rparr>,
      sec_Data = [(''stale.pem'', [9])]\<rparr>"

definition storedCACertSecret :: corev1_Secret where
  "storedCACertSecret =
     \<lparr>sec_TypeMeta = \<lparr>Kind = ''Secret'', APIVersion = ''v1''\<rparr>,
      sec_ObjectMeta =
        \<lparr>om_Name = ''conversion-ca-cert'',
         om_Namespace = ''direct-csi-min-io'',
         om_Annotations = [],
         om_Labels = [(''owner'', ''operator'')],
         om_Finalizers = []\<rparr>,
      sec_Data = [(''stale.pem'', [9])]\<rparr>"

definition installedWorld :: world where
  "installedWorld =
     sampleWorld\<lparr>secrets :=
       [(''direct-csi-min-io'', ''conversion-key-pair'') \<mapsto> storedKeyPairSecret,
        (''direct-csi-min-io'', ''conversion-ca-cert'') \<mapsto> storedCACertSecret]\<rparr>"


section \<open>What the collaborators change\<close>

text \<open>
  The writer touches only what has been written, printing only what has been printed,
  a random draw only the number of draws, and an API call only the trace and the
  cluster's objects.
\<close>

lemma WriteObject_None [simp]: "WriteObject None obj w = (Inr (), w)"
  by (simp add: WriteObject_def)

lemma WriteObject_Some:
  "WriteObject (Some wr) obj w =
     (case wr obj of Some e \<Rightarrow> (Inl e, w) | None \<Rightarrow> (Inr (), w\<lparr>written := written w @ [obj]\<rparr>))"
  by (simp add: WriteObject_def)

lemma WriteObject_cases:
  "(\<exists>e. WriteObject writer obj w = (Inl e, w)) \<or>
   WriteObject writer obj w = (Inr (), w) \<and> writer = None \<or>
   WriteObject writer obj w = (Inr (), w\<lparr>written := written w @ [obj]\<rparr>) \<and> writer \<noteq> None"
  by (cases writer) (auto simp: WriteObject_def split: option.splits)

lemma WriteObject_Inr:
  "WriteObject writer obj w = (Inr u, w1) \<Longrightarrow>
     w1 = (case writer of None \<Rightarrow> w | Some wr \<Rightarrow> w\<lparr>written := written w @ [obj]\<rparr>)"
  by (cases writer) (auto simp: WriteObject_def split: option.splits)

lemma WriteObject_Inl: "WriteObject writer obj w = (Inl e, w1) \<Longrightarrow> w1 = w"
  by (cases writer) (auto simp: WriteObject_def split: option.splits)

lemma WriteObject_keeps:
  "calls (snd (WriteObject writer obj w)) = calls w"
  "secrets (snd (WriteObject writer obj w)) = secrets w"
  "objects (snd (WriteObject writer obj w)) = objects w"
  "printed (snd (WriteObject writer obj w)) = printed w"
  "validationWebhookCaBundle (snd (WriteObject writer obj w)) = validationWebhookCaBundle w"
  "conversionWebhookCaBundle (snd (WriteObject writer obj w)) = conversionWebhookCaBundle w"
  "randomCalls (snd (WriteObject writer obj w)) = randomCalls w"
  by (cases writer; simp add: WriteObject_def split: option.splits)+

lemma LogYAML_cases:
  "(\<exists>e. LogYAML k obj w = (Inl e, w)) \<or> LogYAML k obj w = (Inr (), w\<lparr>printed := printed w @ [obj]\<rparr>)"
  by (simp add: LogYAML_def split: option.splits)

lemma LogYAML_keeps:
  "calls (snd (LogYAML k obj w)) = calls w"
  "secrets (snd (LogYAML k obj w)) = secrets w"
  "objects (snd (LogYAML k obj w)) = objects w"
  "written (snd (LogYAML k obj w)) = written w"
  "validationWebhookCaBundle (snd (LogYAML k obj w)) = validationWebhookCaBundle w"
  "conversionWebhookCaBundle (snd (LogYAML k obj w)) = conversionWebhookCaBundle w"
  "randomCalls (snd (LogYAML k obj w)) = randomCalls w"
  by (simp_all add: LogYAML_def split: option.splits)

lemma api_Create_keeps:
  "calls (snd (api_Create k r obj w)) = calls w @ [Create r obj]"
  "secrets (snd (api_Create k r obj w)) = secrets w"
  "written (snd (api_Create k r obj w)) = written w"
  "printed (snd (api_Create k r obj w)) = printed w"
  "validationWebhookCaBundle (snd (api_Create k r obj w)) = validationWebhookCaBundle w"
  "conversionWebhookCaBundle (snd (api_Create k r obj w)) = conversionWebhookCaBundle w"
  "randomCalls (snd (api_Create k r obj w)) = randomCalls w"
  by (simp_all add: api_Create_def Let_def split: option.splits)

lemma Secrets_Create_keeps:
  "calls (snd (Secrets_Create k ns s w)) = calls w @ [Create (Secrets ns) (SecretObj s)]"
  "objects (snd (Secrets_Create k ns s w)) = objects w"
  "written (snd (Secrets_Create k ns s w)) = written w"
  "printed (snd (Secrets_Create k ns s w)) = printed w"
  "validationWebhookCaBundle (snd (Secrets_Create k ns s w)) = validationWebhookCaBundle w"
  "conversionWebhookCaBundle (snd (Secrets_Create k ns s w)) = conversionWebhookCaBundle w"
  "randomCalls (snd (Secrets_Create k ns s w)) = randomCalls w"
  by (simp_all add: Secrets_Create_def Let_def split: option.splits)

lemma Secrets_Get_world:
  "snd (Secrets_Get k ns name w) = w\<lparr>calls := calls w @ [Get (Secrets ns) name]\<rparr>"
  by (simp add: Secrets_Get_def Let_def split: option.splits)


text \<open>The answer of the API does not depend on what has been written or printed.\<close>

lemma api_Create_answer_written [simp]:
  "fst (api_Create k r obj (w\<lparr>written := x\<rparr>)) = fst (api_Create k r obj w)"
  by (simp add: api_Create_def Let_def split: option.splits)

lemma generateSanitizedUniqueNameFrom_world:
  "snd (generateSanitizedUniqueNameFrom k name w) = w\<lparr>randomCalls := Suc (randomCalls w)\<rparr>"
  by (simp add: generateSanitizedUniqueNameFrom_def newRandomString_def Let_def)

lemma generateSanitizedUniqueNameFrom_token:
  "fst (generateSanitizedUniqueNameFrom k name w) =
     (if length (SanitizeKubeResourceName k name) \<ge> 255
      then take 249 (SanitizeKubeResourceName k name)
      else SanitizeKubeResourceName k name) @ ''-'' @ randomStrings k (randomCalls w) 5"
  by (simp add: generateSanitizedUniqueNameFrom_def newRandomString_def Let_def)

section \<open>Version negotiation in CreateCSIDriver and CreateStorageClass\<close>

text \<open>
  C4. For every identity and dry-run setting, when none of the candidate schema
  versions \<open>v1\<close>, \<open>v1beta1\<close>, \<open>v1alpha1\<close> is offered by the cluster for the group and
  kind the two operations ask about, \<open>CreateCSIDriver\<close> and \<open>CreateStorageClass\<close>
  return \<open>ErrKubeVersionNotSupported\<close> and leave the state as it was: no call is issued
  to the orchestration API and nothing is written or printed.
\<close>

theorem unsupported_version_no_create:
  assumes "''v1'' \<notin> set (apiVersions k ''storage.k8s.io'' ''CSIDriver'')"
    and "''v1beta1'' \<notin> set (apiVersions k ''storage.k8s.io'' ''CSIDriver'')"
    and "''v1alpha1'' \<notin> set (apiVersions k ''storage.k8s.io'' ''CSIDriver'')"
  shows "CreateCSIDriver c k identity dryRun writer w = (Inl ErrKubeVersionNotSupported, w)
       \<and> calls (snd (CreateCSIDriver c k identity dryRun writer w)) = calls w
       \<and> CreateStorageClass c k identity dryRun writer w = (Inl ErrKubeVersionNotSupported, w)
       \<and> calls (snd (CreateStorageClass c k identity dryRun writer w)) = calls w"
  using assms
  by (simp add: CreateCSIDriver_def CreateStorageClass_def GetGroupKindVersions_def)

theorem unsupported_version_no_create_witness:
  "''v1'' \<notin> set (apiVersions (sampleEnv\<lparr>apiVersions := (\<lambda>grp knd. [''v2''])\<rparr>) ''storage.k8s.io'' ''CSIDriver'')
   \<and> CreateCSIDriver sampleConstants (sampleEnv\<lparr>apiVersions := (\<lambda>grp knd. [''v2''])\<rparr>)
        ''direct-csi-min-io'' False (Some sampleWriter) sampleWorld
      = (Inl ErrKubeVersionNotSupported, sampleWorld)
   \<and> CreateStorageClass sampleConstants (sampleEnv\<lparr>apiVersions := (\<lambda>grp knd. [''v2''])\<rparr>)
        ''direct-csi-min-io'' True (Some sampleWriter) sampleWorld
      = (Inl ErrKubeVersionNotSupported, sampleWorld)"
proof -
  let ?k = "sampleEnv\<lparr>apiVersions := (\<lambda>grp knd. [''v2''])\<rparr>"
  have h1: "''v1'' \<notin> set (apiVersions ?k ''storage.k8s.io'' ''CSIDriver'')" by simp
  have h2: "''v1beta1'' \<notin> set (apiVersions ?k ''storage.k8s.io'' ''CSIDriver'')" by simp
  have h3: "''v1alpha1'' \<notin> set (apiVersions ?k ''storage.k8s.io'' ''CSIDriver'')" by simp
  show ?thesis
    using h1 unsupported_version_no_create [OF h1 h2 h3, of sampleConstants "''direct-csi-min-io''" False
        "Some sampleWriter" sampleWorld]
      unsupported_version_no_create [OF h1 h2 h3, of sampleConstants "''direct-csi-min-io''" True
        "Some sampleWriter" sampleWorld]
    by simp
qed

text \<open>
  C10. \<open>CreateCSIDriver\<close> and \<open>CreateStorageClass\<close> pass \<open>v1alpha1\<close> to the negotiator
  as a third candidate and have no branch for it: for every identity, when the
  negotiator selects \<open>v1alpha1\<close> the operation returns \<open>ErrKubeVersionNotSupported\<close> and
  the state is as it was, so no descriptor is written or printed and no create call is
  issued.
\<close>

theorem v1alpha1_not_supported:
  assumes "GetGroupKindVersions k ''storage.k8s.io'' ''CSIDriver'' [''v1'', ''v1beta1'', ''v1alpha1'']
             = Inr gvk"
    and "gvk_Version gvk = ''v1alpha1''"
  shows "CreateCSIDriver c k identity dryRun writer w = (Inl ErrKubeVersionNotSupported, w)
       \<and> CreateStorageClass c k identity dryRun writer w = (Inl ErrKubeVersionNotSupported, w)"
  using assms by (simp add: CreateCSIDriver_def CreateStorageClass_def)

theorem v1alpha1_not_supported_witness:
  "GetGroupKindVersions (sampleEnv\<lparr>apiVersions := (\<lambda>grp knd. [''v1alpha1''])\<rparr>)
       ''storage.k8s.io'' ''CSIDriver'' [''v1'', ''v1beta1'', ''v1alpha1'']
     = Inr \<lparr>gvk_Group = ''storage.k8s.io'', gvk_Version = ''v1alpha1'', gvk_Kind = ''CSIDriver''\<rparr>
   \<and> CreateCSIDriver sampleConstants (sampleEnv\<lparr>apiVersions := (\<lambda>grp knd. [''v1alpha1''])\<rparr>)
        ''direct-csi-min-io'' False (Some sampleWriter) sampleWorld
      = (Inl ErrKubeVersionNotSupported, sampleWorld)
   \<and> CreateStorageClass sampleConstants (sampleEnv\<lparr>apiVersions := (\<lambda>grp knd. [''v1alpha1''])\<rparr>)
        ''direct-csi-min-io'' False (Some sampleWriter) sampleWorld
      = (Inl ErrKubeVersionNotSupported, sampleWorld)"
proof -
  let ?k = "sampleEnv\<lparr>apiVersions := (\<lambda>grp knd. [''v1alpha1''])\<rparr>"
  let ?gvk = "\<lparr>gvk_Group = ''storage.k8s.io'', gvk_Version = ''v1alpha1'', gvk_Kind = ''CSIDriver''\<rparr>"
  have h1: "GetGroupKindVersions ?k ''storage.k8s.io'' ''CSIDriver'' [''v1'', ''v1beta1'', ''v1alpha1'']
              = Inr ?gvk"
    by (simp add: GetGroupKindVersions_def)
  have h2: "gvk_Version ?gvk = ''v1alpha1''" by simp
  show ?thesis
    using h1 v1alpha1_not_supported [OF h1 h2, of sampleConstants "''direct-csi-min-io''" False
        "Some sampleWriter" sampleWorld]
    by simp
qed

section \<open>The length of the selector token\<close>

text \<open>
  C5. \<open>generateSanitizedUniqueNameFrom\<close> truncates the sanitized name to 249 bytes only
  when it has 255 bytes or more. With a random suffix of 5 bytes the token has 255 bytes
  after a truncation, and 6 bytes more than the sanitized name otherwise: a sanitized
  name of 250 to 254 bytes gives a token of 256 to 260 bytes, above the 255 bytes that
  the comments in the function promise.
\<close>

theorem generateSanitizedUniqueNameFrom_length:
  assumes "length (randomStrings k (randomCalls w) 5) = 5"
  shows "length (fst (generateSanitizedUniqueNameFrom k name w)) =
           (if length (SanitizeKubeResourceName k name) \<ge> 255 then 255
            else length (SanitizeKubeResourceName k name) + 6)"
  using assms by (simp add: generateSanitizedUniqueNameFrom_token)

theorem generateSanitizedUniqueNameFrom_length_witness:
  "length (randomStrings sampleEnv (randomCalls sampleWorld) 5) = 5
   \<and> length (SanitizeKubeResourceName sampleEnv (replicate 250 (CHR ''a''))) = 250
   \<and> length (fst (generateSanitizedUniqueNameFrom sampleEnv (replicate 250 (CHR ''a'')) sampleWorld)) = 256"
proof -
  have h: "length (randomStrings sampleEnv (randomCalls sampleWorld) 5) = 5"
    by (simp add: sampleEnv_def)
  have s: "length (SanitizeKubeResourceName sampleEnv (replicate 250 (CHR ''a''))) = 250"
    by (simp add: sampleEnv_def)
  show ?thesis
    using h s generateSanitizedUniqueNameFrom_length [OF h, of "replicate 250 (CHR ''a'')"]
    by simp
qed

section \<open>What the operations emit\<close>

lemma snd_case_sum_prod:
  "snd (case p of (Inl e, w1) \<Rightarrow> (Inl e, w1) | (Inr u, w1) \<Rightarrow> (Inr v, w1)) = snd p"
  by (simp split: prod.splits sum.splits)

lemma CreateDaemonSet_submits:
  "calls (snd (CreateDaemonSet c k identity img False registry org lb nsel tol sp ap dd None w)) =
     calls w @ [Create (DaemonSets (SanitizeKubeResourceName k identity))
       (DaemonSetObj (CreateDaemonSet_descriptor c k identity img registry org lb nsel tol sp ap dd
          (fst (generateSanitizedUniqueNameFrom k (SanitizeKubeResourceName k identity) w))))]"
  by (simp add: CreateDaemonSet_def Let_def case_prod_beta api_Create_keeps
      generateSanitizedUniqueNameFrom_world split: sum.splits)

lemma CreateDaemonSet_writes:
  assumes "wr (DaemonSetObj (CreateDaemonSet_descriptor c k identity img registry org lb nsel tol sp ap dd
          (fst (generateSanitizedUniqueNameFrom k (SanitizeKubeResourceName k identity) w)))) = None"
  shows "written (snd (CreateDaemonSet c k identity img dryRun registry org lb nsel tol sp ap dd (Some wr) w)) =
     written w @ [DaemonSetObj (CreateDaemonSet_descriptor c k identity img registry org lb nsel tol sp ap dd
          (fst (generateSanitizedUniqueNameFrom k (SanitizeKubeResourceName k identity) w)))]"
  using assms
  by (simp add: CreateDaemonSet_def Let_def case_prod_beta api_Create_keeps LogYAML_keeps WriteObject_Some
      generateSanitizedUniqueNameFrom_world split: sum.splits)

lemma CreateDaemonSet_descriptor_securityContexts:
  "map c_SecurityContext (ps_Containers (pt_Spec (ds_Template
       (CreateDaemonSet_descriptor c k identity img registry org lb nsel tol sp ap dd tok)))) =
     [None,
      Some \<lparr>sctx_Privileged = Some True,
            sctx_SeccompProfile =
              (if sp = [] then None
               else Some \<lparr>scp_Type = SeccompProfileTypeLocalhost, scp_LocalhostProfile = Some sp\<rparr>)\<rparr>,
      None]"
  by (simp add: CreateDaemonSet_descriptor_def Let_def)

lemma CreateDaemonSet_descriptor_annotations:
  "om_Annotations (pt_ObjectMeta (ds_Template
       (CreateDaemonSet_descriptor c k identity img registry org lb nsel tol sp ap dd tok))) =
     (if ap = [] then [(CreatedByLabel c, DirectCSIPluginName c)]
      else AList.update ''container.apparmor.security.beta.kubernetes.io/direct-csi'' ap
             [(CreatedByLabel c, DirectCSIPluginName c)])"
  by (simp add: CreateDaemonSet_descriptor_def Let_def)

lemma CreateDaemonSet_descriptor_selector:
  "ds_Selector (CreateDaemonSet_descriptor c k identity img registry org lb nsel tol sp ap dd tok) =
     Some (AddLabelToSelector \<lparr>ls_MatchLabels = []\<rparr> (directCSISelector c) tok)"
  "om_Labels (pt_ObjectMeta (ds_Template
       (CreateDaemonSet_descriptor c k identity img registry org lb nsel tol sp ap dd tok))) =
     [(directCSISelector c, tok), (webhookSelector c, selectorValueEnabled c)]"
  by (simp_all add: CreateDaemonSet_descriptor_def Let_def)

lemma CreateDeployment_descriptor_selector:
  "dp_Selector (CreateDeployment_descriptor c k identity img registry org tok) =
     Some (AddLabelToSelector \<lparr>ls_MatchLabels = []\<rparr> (directCSISelector c) tok)"
  "om_Labels (pt_ObjectMeta (dp_Template
       (CreateDeployment_descriptor c k identity img registry org tok))) =
     [(directCSISelector c, tok), (webhookSelector c, selectorValueEnabled c)]"
  by (simp_all add: CreateDeployment_descriptor_def Let_def)

lemma AddLabelToSelector_empty:
  "key \<noteq> [] \<Longrightarrow> AddLabelToSelector \<lparr>ls_MatchLabels = []\<rparr> key v = \<lparr>ls_MatchLabels = [(key, v)]\<rparr>"
  by (simp add: AddLabelToSelector_def)

lemma getDriveValidatingWebhookConfig_CABundle:
  "map (wcc_CABundle \<circ> vw_ClientConfig) (vwc_Webhooks (getDriveValidatingWebhookConfig c k identity w))
     = [validationWebhookCaBundle w]"
  by (simp add: getDriveValidatingWebhookConfig_def Let_def)

lemma CreateControllerSecret_keeps:
  "written (snd (CreateControllerSecret c k identity pub key dryRun w)) = written w"
  "validationWebhookCaBundle (snd (CreateControllerSecret c k identity pub key dryRun w)) = validationWebhookCaBundle w"
  "conversionWebhookCaBundle (snd (CreateControllerSecret c k identity pub key dryRun w)) = conversionWebhookCaBundle w"
  "randomCalls (snd (CreateControllerSecret c k identity pub key dryRun w)) = randomCalls w"
  "objects (snd (CreateControllerSecret c k identity pub key dryRun w)) = objects w"
  by (simp_all add: CreateControllerSecret_def Let_def case_prod_beta LogYAML_keeps Secrets_Create_keeps
      split: sum.splits)

lemma CreateControllerService_keeps:
  "written (snd (CreateControllerService c k tok identity dryRun w)) = written w"
  "validationWebhookCaBundle (snd (CreateControllerService c k tok identity dryRun w)) = validationWebhookCaBundle w"
  "conversionWebhookCaBundle (snd (CreateControllerService c k tok identity dryRun w)) = conversionWebhookCaBundle w"
  "randomCalls (snd (CreateControllerService c k tok identity dryRun w)) = randomCalls w"
  "secrets (snd (CreateControllerService c k tok identity dryRun w)) = secrets w"
  by (simp_all add: CreateControllerService_def Let_def case_prod_beta LogYAML_keeps api_Create_keeps
      split: sum.splits)

lemma CreateDaemonSet_randomCalls:
  "randomCalls (snd (CreateDaemonSet c k identity img dryRun registry org lb nsel tol sp ap dd writer w))
     = Suc (randomCalls w)"
  by (simp add: CreateDaemonSet_def Let_def case_prod_beta api_Create_keeps LogYAML_keeps
      WriteObject_keeps generateSanitizedUniqueNameFrom_world split: sum.splits)

lemma CreateDeployment_randomCalls:
  "randomCalls (snd (CreateDeployment c k identity img dryRun registry org writer w))
     = Suc (randomCalls w)"
  by (simp add: CreateDeployment_def Let_def case_prod_beta api_Create_keeps LogYAML_keeps
      WriteObject_keeps generateSanitizedUniqueNameFrom_world CreateControllerSecret_keeps
      CreateControllerService_keeps snd_case_sum_prod
      split: sum.splits option.splits)

lemma CreateDeployment_bundle:
  assumes "getCerts k [admissionWehookDNSName c] = Inr (ca, pub, key)"
  shows "validationWebhookCaBundle (snd (CreateDeployment c k identity img dryRun registry org writer w)) = ca"
  using assms
  by (simp add: CreateDeployment_def Let_def case_prod_beta api_Create_keeps LogYAML_keeps
      WriteObject_keeps generateSanitizedUniqueNameFrom_world CreateControllerSecret_keeps
      CreateControllerService_keeps snd_case_sum_prod
      split: sum.splits option.splits)

lemma CreateDaemonSet_emits:
  "written (snd (CreateDaemonSet c k identity img dryRun registry org lb nsel tol sp ap dd writer w)) = written w
   \<or> written (snd (CreateDaemonSet c k identity img dryRun registry org lb nsel tol sp ap dd writer w)) =
     written w @ [DaemonSetObj (CreateDaemonSet_descriptor c k identity img registry org lb nsel tol sp ap dd
          (fst (generateSanitizedUniqueNameFrom k (SanitizeKubeResourceName k identity) w)))]"
  "printed (snd (CreateDaemonSet c k identity img dryRun registry org lb nsel tol sp ap dd writer w)) = printed w
   \<or> printed (snd (CreateDaemonSet c k identity img dryRun registry org lb nsel tol sp ap dd writer w)) =
     printed w @ [DaemonSetObj (CreateDaemonSet_descriptor c k identity img registry org lb nsel tol sp ap dd
          (fst (generateSanitizedUniqueNameFrom k (SanitizeKubeResourceName k identity) w)))]"
  "calls (snd (CreateDaemonSet c k identity img dryRun registry org lb nsel tol sp ap dd writer w)) = calls w
   \<or> calls (snd (CreateDaemonSet c k identity img dryRun registry org lb nsel tol sp ap dd writer w)) =
     calls w @ [Create (DaemonSets (SanitizeKubeResourceName k identity))
        (DaemonSetObj (CreateDaemonSet_descriptor c k identity img registry org lb nsel tol sp ap dd
          (fst (generateSanitizedUniqueNameFrom k (SanitizeKubeResourceName k identity) w))))]"
  by (cases writer; simp add: CreateDaemonSet_def Let_def case_prod_beta api_Create_keeps LogYAML_def
      WriteObject_def generateSanitizedUniqueNameFrom_world split: sum.splits option.splits)+

lemma CreateDeployment_emits:
  "written (snd (CreateDeployment c k identity img dryRun registry org writer w)) = written w
   \<or> written (snd (CreateDeployment c k identity img dryRun registry org writer w)) =
     written w @ [DeploymentObj (CreateDeployment_descriptor c k identity img registry org
          (fst (generateSanitizedUniqueNameFrom k (SanitizeKubeResourceName k identity) w)))]"
  by (cases writer; simp add: CreateDeployment_def Let_def case_prod_beta api_Create_keeps LogYAML_keeps
      WriteObject_def generateSanitizedUniqueNameFrom_world CreateControllerSecret_keeps
      CreateControllerService_keeps snd_case_sum_prod
      split: sum.splits option.splits)

lemma CreateControllerSecret_calls:
  "calls (snd (CreateControllerSecret c k identity pub key False w)) =
     calls w @ [Create (Secrets (SanitizeKubeResourceName k identity))
                  (SecretObj (CreateControllerSecret_descriptor c k identity pub key))]"
  "calls (snd (CreateControllerSecret c k identity pub key True w)) = calls w"
  by (simp_all add: CreateControllerSecret_def Let_def case_prod_beta LogYAML_keeps Secrets_Create_keeps
      split: sum.splits)

lemma CreateControllerService_calls:
  "calls (snd (CreateControllerService c k tok identity False w)) =
     calls w @ [Create (Services (SanitizeKubeResourceName k identity))
                  (ServiceObj (CreateControllerService_descriptor c k tok identity))]"
  "calls (snd (CreateControllerService c k tok identity True w)) = calls w"
  by (simp_all add: CreateControllerService_def Let_def case_prod_beta LogYAML_keeps api_Create_keeps
      split: sum.splits)

lemma CreateDeployment_success_calls:
  assumes "getCerts k [admissionWehookDNSName c] = Inr (ca, pub, key)"
    and "fst (CreateDeployment c k identity img False registry org writer w) = Inr ()"
  shows "calls (snd (CreateDeployment c k identity img False registry org writer w)) =
     calls w @
       [Create (Secrets (SanitizeKubeResourceName k identity))
          (SecretObj (CreateControllerSecret_descriptor c k identity pub key)),
        Create (Deployments (SanitizeKubeResourceName k identity))
          (DeploymentObj (CreateDeployment_descriptor c k identity img registry org
             (fst (generateSanitizedUniqueNameFrom k (SanitizeKubeResourceName k identity) w)))),
        Create (Services (SanitizeKubeResourceName k identity))
          (ServiceObj (CreateControllerService_descriptor c k
             (fst (generateSanitizedUniqueNameFrom k (SanitizeKubeResourceName k identity) w)) identity))]"
  using assms
  by (auto simp: CreateDeployment_def Let_def case_prod_beta api_Create_keeps LogYAML_keeps
      WriteObject_keeps generateSanitizedUniqueNameFrom_world CreateControllerSecret_calls
      CreateControllerService_calls
      split: sum.splits option.splits if_splits)

lemma RegisterDriveValidationRules_submits:
  "calls (snd (RegisterDriveValidationRules c k identity False None w)) =
     calls w @ [Create ValidatingWebhookConfigurations
       (ValidatingWebhookConfigurationObj (getDriveValidatingWebhookConfig c k identity w))]"
  by (simp add: RegisterDriveValidationRules_def Let_def case_prod_beta api_Create_keeps
      split: sum.splits)

text \<open>
  The answer of the API to a call depends on the number of calls issued before it and on
  the objects the cluster stores, not on the writer, the printer, the random draws or
  the CA bundles.
\<close>

lemma api_Create_answer:
  "length (calls w') = length (calls w) \<Longrightarrow> objects w' = objects w \<Longrightarrow>
     fst (api_Create k r obj w') = fst (api_Create k r obj w)"
  by (simp add: api_Create_def Let_def split: option.splits)

lemma Secrets_Create_answer:
  "length (calls w') = length (calls w) \<Longrightarrow> secrets w' = secrets w \<Longrightarrow>
     fst (Secrets_Create k ns s w') = fst (Secrets_Create k ns s w)"
  by (simp add: Secrets_Create_def Let_def split: option.splits)

lemma Secrets_Get_answer:
  "length (calls w') = length (calls w) \<Longrightarrow> secrets w' = secrets w \<Longrightarrow>
     fst (Secrets_Get k ns name w') = fst (Secrets_Get k ns name w)"
  by (simp add: Secrets_Get_def Let_def split: option.splits)

lemma Secrets_Update_answer:
  "length (calls w') = length (calls w) \<Longrightarrow> secrets w' = secrets w \<Longrightarrow>
     fst (Secrets_Update k ns s w') = fst (Secrets_Update k ns s w)"
  by (simp add: Secrets_Update_def Let_def split: option.splits)

lemma WriteObject_ok_world:
  "fst (WriteObject writer obj w) = Inr () \<Longrightarrow>
     calls (snd (WriteObject writer obj w)) = calls w \<and> objects (snd (WriteObject writer obj w)) = objects w
     \<and> secrets (snd (WriteObject writer obj w)) = secrets w"
  by (simp add: WriteObject_keeps)

lemma CreateNamespace_create_error:
  assumes "fst (WriteObject writer (NamespaceObj (CreateNamespace_descriptor c k identity)) w) = Inr ()"
    and "fst (api_Create k Namespaces (NamespaceObj (CreateNamespace_descriptor c k identity)) w) = Inl e"
  shows "fst (CreateNamespace c k identity False writer w) = Inl e"
proof -
  let ?obj = "NamespaceObj (CreateNamespace_descriptor c k identity)"
  have "fst (api_Create k Namespaces ?obj (snd (WriteObject writer ?obj w))) = Inl e"
    using assms(2) by (simp add: api_Create_answer [of "snd (WriteObject writer ?obj w)" w] WriteObject_keeps)
  then show ?thesis using assms(1)
    by (simp add: CreateNamespace_def Let_def case_prod_beta split: sum.splits)
qed

text \<open>
  The answers of the API and of the writer, written out, and what each operation returns
  when the API refuses its create call.
\<close>

lemma fst_api_Create:
  "fst (api_Create k r obj w) =
     (case apiFault k (length (calls w)) (Create r obj) of
        Some e \<Rightarrow> Inl e
      | None \<Rightarrow> (case objects w (r, object_name obj) of
                   Some old \<Rightarrow> Inl AlreadyExists
                 | None \<Rightarrow> Inr obj))"
  by (simp add: api_Create_def Let_def split: option.splits)

lemma fst_Secrets_Create:
  "fst (Secrets_Create k ns s w) =
     (case apiFault k (length (calls w)) (Create (Secrets ns) (SecretObj s)) of
        Some e \<Rightarrow> Inl e
      | None \<Rightarrow> (case secrets w (ns, om_Name (sec_ObjectMeta s)) of
                   Some old \<Rightarrow> Inl AlreadyExists
                 | None \<Rightarrow> Inr s))"
  by (simp add: Secrets_Create_def Let_def split: option.splits)

lemma objects_api_Create:
  "objects (snd (api_Create k r obj w)) =
     (case fst (api_Create k r obj w) of
        Inl e \<Rightarrow> objects w
      | Inr x \<Rightarrow> (objects w)((r, object_name obj) \<mapsto> obj))"
  by (simp add: api_Create_def Let_def split: option.splits)

lemma CreateControllerSecret_fst:
  "fst (CreateControllerSecret c k identity pub key False w) =
     (case fst (Secrets_Create k (SanitizeKubeResourceName k identity)
                  (CreateControllerSecret_descriptor c k identity pub key) w) of
        Inl e \<Rightarrow> Inl e | Inr s \<Rightarrow> Inr ())"
  by (simp add: CreateControllerSecret_def Let_def case_prod_beta split: sum.splits)

lemma CreateControllerService_fst:
  "fst (CreateControllerService c k tok identity False w) =
     (case fst (api_Create k (Services (SanitizeKubeResourceName k identity))
                  (ServiceObj (CreateControllerService_descriptor c k tok identity)) w) of
        Inl e \<Rightarrow> Inl e | Inr s \<Rightarrow> Inr ())"
  by (simp add: CreateControllerService_def Let_def case_prod_beta split: sum.splits)

lemma CreateCSIDriver_create_error:
  assumes "GetGroupKindVersions k ''storage.k8s.io'' ''CSIDriver'' [''v1'', ''v1beta1'', ''v1alpha1''] = Inr gvk"
    and "gvk_Version gvk = ''v1''"
    and "fst (WriteObject writer (CSIDriverV1Obj (CreateCSIDriver_descriptor c k identity ''storage.k8s.io/v1'')) w) = Inr ()"
    and "fst (api_Create k CSIDrivers_V1 (CSIDriverV1Obj (CreateCSIDriver_descriptor c k identity ''storage.k8s.io/v1'')) w) = Inl e"
  shows "fst (CreateCSIDriver c k identity False writer w) = Inl e"
  using assms
  by (simp add: CreateCSIDriver_def Let_def case_prod_beta fst_api_Create WriteObject_keeps
      split: sum.splits option.splits)

lemma CreateCSIDriver_beta_create_error:
  assumes "GetGroupKindVersions k ''storage.k8s.io'' ''CSIDriver'' [''v1'', ''v1beta1'', ''v1alpha1''] = Inr gvk"
    and "gvk_Version gvk = ''v1beta1''"
    and "fst (api_Create k CSIDrivers_V1beta1 (CSIDriverV1beta1Obj (CreateCSIDriver_descriptor c k identity ''storage.k8s.io/v1beta1'')) w) = Inl e"
  shows "fst (CreateCSIDriver c k identity False writer w) = Inl e"
  using assms
  by (simp add: CreateCSIDriver_def Let_def case_prod_beta fst_api_Create WriteObject_keeps
      split: sum.splits option.splits)

lemma CreateStorageClass_create_error:
  assumes "GetGroupKindVersions k ''storage.k8s.io'' ''CSIDriver'' [''v1'', ''v1beta1'', ''v1alpha1''] = Inr gvk"
    and "gvk_Version gvk = ''v1''"
    and "fst (WriteObject writer (StorageClassV1Obj (CreateStorageClass_descriptor c k identity ''storage.k8s.io/v1'')) w) = Inr ()"
    and "fst (api_Create k StorageClasses_V1 (StorageClassV1Obj (CreateStorageClass_descriptor c k identity ''storage.k8s.io/v1'')) w) = Inl e"
  shows "fst (CreateStorageClass c k identity False writer w) = Inl e"
  using assms
  by (simp add: CreateStorageClass_def Let_def case_prod_beta fst_api_Create WriteObject_keeps
      split: sum.splits option.splits)

lemma CreateStorageClass_beta_create_error:
  assumes "GetGroupKindVersions k ''storage.k8s.io'' ''CSIDriver'' [''v1'', ''v1beta1'', ''v1alpha1''] = Inr gvk"
    and "gvk_Version gvk = ''v1beta1''"
    and "fst (WriteObject writer (StorageClassV1beta1Obj (CreateStorageClass_descriptor c k identity ''storage.k8s.io/v1beta1'')) w) = Inr ()"
    and "fst (api_Create k StorageClasses_V1beta1 (StorageClassV1beta1Obj (CreateStorageClass_descriptor c k identity ''storage.k8s.io/v1beta1'')) w) = Inl e"
  shows "fst (CreateStorageClass c k identity False writer w) = Inl e"
  using assms
  by (simp add: CreateStorageClass_def Let_def case_prod_beta fst_api_Create WriteObject_keeps
      split: sum.splits option.splits)

lemma CreateService_create_error:
  assumes "fst (WriteObject writer (ServiceObj (CreateService_descriptor c k identity)) w) = Inr ()"
    and "fst (api_Create k (Services (SanitizeKubeResourceName k identity)) (ServiceObj (CreateService_descriptor c k identity)) w) = Inl e"
  shows "fst (CreateService c k identity False writer w) = Inl e"
  using assms
  by (simp add: CreateService_def Let_def case_prod_beta fst_api_Create WriteObject_keeps
      split: sum.splits option.splits)

lemma CreateDaemonSet_create_error:
  assumes "fst (WriteObject writer (DaemonSetObj (CreateDaemonSet_descriptor c k identity img registry org lb nsel tol sp ap dd
          (fst (generateSanitizedUniqueNameFrom k (SanitizeKubeResourceName k identity) w)))) w) = Inr ()"
    and "fst (api_Create k (DaemonSets (SanitizeKubeResourceName k identity))
          (DaemonSetObj (CreateDaemonSet_descriptor c k identity img registry org lb nsel tol sp ap dd
          (fst (generateSanitizedUniqueNameFrom k (SanitizeKubeResourceName k identity) w)))) w) = Inl e"
  shows "fst (CreateDaemonSet c k identity img False registry org lb nsel tol sp ap dd writer w) = Inl e"
proof -
  have wr: "\<And>obj x. fst (WriteObject writer obj (w\<lparr>randomCalls := x\<rparr>)) = fst (WriteObject writer obj w)"
    by (cases writer) (simp_all add: WriteObject_def split: option.splits)
  show ?thesis
    using assms
    by (simp add: CreateDaemonSet_def Let_def case_prod_beta fst_api_Create WriteObject_keeps
        generateSanitizedUniqueNameFrom_world wr split: sum.splits option.splits)
qed

lemma RegisterDriveValidationRules_create_error:
  assumes "fst (WriteObject writer (ValidatingWebhookConfigurationObj (getDriveValidatingWebhookConfig c k identity w)) w) = Inr ()"
    and "fst (api_Create k ValidatingWebhookConfigurations (ValidatingWebhookConfigurationObj (getDriveValidatingWebhookConfig c k identity w)) w) = Inl e"
  shows "fst (RegisterDriveValidationRules c k identity False writer w) = Inl e"
  using assms
  by (simp add: RegisterDriveValidationRules_def Let_def case_prod_beta fst_api_Create WriteObject_keeps
      split: sum.splits option.splits)

lemma CreateControllerService_create_error:
  assumes "fst (api_Create k (Services (SanitizeKubeResourceName k identity))
                  (ServiceObj (CreateControllerService_descriptor c k tok identity)) w) = Inl e"
  shows "fst (CreateControllerService c k tok identity False w) = Inl e"
  using assms by (simp add: CreateControllerService_fst)

lemma CreateControllerSecret_create_error:
  assumes "fst (Secrets_Create k (SanitizeKubeResourceName k identity)
                  (CreateControllerSecret_descriptor c k identity pub key) w) = Inl e"
  shows "fst (CreateControllerSecret c k identity pub key False w) = Inl e"
  using assms by (simp add: CreateControllerSecret_fst)

lemma WriteObject_answer:
  "fst (WriteObject writer obj w) =
     (case writer of None \<Rightarrow> Inr ()
      | Some wr \<Rightarrow> (case wr obj of Some e \<Rightarrow> Inl e | None \<Rightarrow> Inr ()))"
  by (cases writer) (simp_all add: WriteObject_def split: option.splits)



lemma CreateDeployment_secret_exists:
  assumes "getCerts k [admissionWehookDNSName c] = Inr (ca, pub, key)"
    and "fst (Secrets_Create k (SanitizeKubeResourceName k identity)
               (CreateControllerSecret_descriptor c k identity pub key) w) = Inl AlreadyExists"
    and "fst (WriteObject writer (DeploymentObj (CreateDeployment_descriptor c k identity img registry org
              (fst (generateSanitizedUniqueNameFrom k (SanitizeKubeResourceName k identity) w)))) w) = Inr ()"
    and "fst (api_Create k (Deployments (SanitizeKubeResourceName k identity))
           (DeploymentObj (CreateDeployment_descriptor c k identity img registry org
              (fst (generateSanitizedUniqueNameFrom k (SanitizeKubeResourceName k identity) w))))
           (w\<lparr>calls := calls w @ [Create (Secrets (SanitizeKubeResourceName k identity))
                (SecretObj (CreateControllerSecret_descriptor c k identity pub key))]\<rparr>)) = Inr x"
    and "fst (api_Create k (Services (SanitizeKubeResourceName k identity))
           (ServiceObj (CreateControllerService_descriptor c k
              (fst (generateSanitizedUniqueNameFrom k (SanitizeKubeResourceName k identity) w)) identity))
           (w\<lparr>calls := calls w @ [Create (Secrets (SanitizeKubeResourceName k identity))
                (SecretObj (CreateControllerSecret_descriptor c k identity pub key)),
              Create (Deployments (SanitizeKubeResourceName k identity))
                (DeploymentObj (CreateDeployment_descriptor c k identity img registry org
                  (fst (generateSanitizedUniqueNameFrom k (SanitizeKubeResourceName k identity) w))))]\<rparr>)) = Inr y"
  shows "fst (CreateDeployment c k identity img False registry org writer w) = Inr ()"
  using assms
  by (auto simp: CreateDeployment_def Let_def case_prod_beta fst_api_Create fst_Secrets_Create
      IsAlreadyExists_def WriteObject_answer WriteObject_keeps generateSanitizedUniqueNameFrom_world api_Create_keeps
      objects_api_Create CreateControllerService_fst
      CreateControllerSecret_fst CreateControllerSecret_keeps CreateControllerSecret_calls
      split: sum.splits option.splits)

lemma fst_Secrets_Get:
  "fst (Secrets_Get k ns name w) =
     (case apiFault k (length (calls w)) (Get (Secrets ns) name) of
        Some e \<Rightarrow> Inl e
      | None \<Rightarrow> (case secrets w (ns, name) of
                   None \<Rightarrow> Inl NotFound
                 | Some s \<Rightarrow> Inr s))"
  by (simp add: Secrets_Get_def Let_def split: option.splits)

lemma CreateOrUpdateConversionKeyPairSecret_create_error:
  assumes "fst (WriteObject writer (SecretObj
             (CreateOrUpdateConversionKeyPairSecret_descriptor c k identity pub key)) w) = Inr ()"
    and "fst (Secrets_Get k (SanitizeKubeResourceName k identity) (conversionKeyPair c) w) = Inl NotFound"
    and "fst (Secrets_Create k (SanitizeKubeResourceName k identity)
           (CreateOrUpdateConversionKeyPairSecret_descriptor c k identity pub key)
           (w\<lparr>calls := calls w @ [Get (Secrets (SanitizeKubeResourceName k identity)) (conversionKeyPair c)]\<rparr>))
         = Inl e"
  shows "fst (CreateOrUpdateConversionKeyPairSecret c k identity pub key False writer w) = Inl e"
  using assms
  by (auto simp: CreateOrUpdateConversionKeyPairSecret_def Let_def case_prod_beta fst_Secrets_Get
      fst_Secrets_Create IsNotFound_def WriteObject_answer WriteObject_keeps Secrets_Get_world
      split: sum.splits option.splits)

lemma CreateOrUpdateConversionCACertSecret_create_error:
  assumes "fst (WriteObject writer (SecretObj
             (CreateOrUpdateConversionCACertSecret_descriptor c k identity ca)) w) = Inr ()"
    and "fst (Secrets_Get k (SanitizeKubeResourceName k identity) (conversionCACert c) w) = Inl NotFound"
    and "fst (Secrets_Create k (SanitizeKubeResourceName k identity)
           (CreateOrUpdateConversionCACertSecret_descriptor c k identity ca)
           (w\<lparr>calls := calls w @ [Get (Secrets (SanitizeKubeResourceName k identity)) (conversionCACert c)]\<rparr>))
         = Inl e"
  shows "fst (CreateOrUpdateConversionCACertSecret c k identity ca False writer w) = Inl e"
  using assms
  by (auto simp: CreateOrUpdateConversionCACertSecret_def Let_def case_prod_beta fst_Secrets_Get
      fst_Secrets_Create IsNotFound_def WriteObject_answer WriteObject_keeps Secrets_Get_world
      split: sum.splits option.splits)

text \<open>What a dry run leaves of the cluster, and the calls of the conversion bundle lookup.\<close>

lemma untouched_refl: "untouched w w"
  by (simp add: untouched_def)

lemma untouched_WriteObject: "untouched w (snd (WriteObject writer obj w))"
  by (simp add: untouched_def WriteObject_keeps)

lemma untouched_LogYAML: "untouched w (snd (LogYAML k obj w))"
  by (simp add: untouched_def LogYAML_keeps)

lemma untouched_fields:
  "untouched w w' \<Longrightarrow> untouched (w\<lparr>randomCalls := x\<rparr>) w'"
  "untouched w w' \<Longrightarrow> untouched (w\<lparr>validationWebhookCaBundle := y\<rparr>) w'"
  "untouched w w' \<Longrightarrow> untouched (w\<lparr>conversionWebhookCaBundle := y\<rparr>) w'"
  by (simp_all add: untouched_def)

lemma CreateNamespace_dryRun: "untouched w (snd (CreateNamespace c k identity True writer w))"
  by (simp add: CreateNamespace_def Let_def case_prod_beta untouched_def WriteObject_keeps
      LogYAML_keeps split: sum.splits)

lemma CreateCSIDriver_dryRun: "untouched w (snd (CreateCSIDriver c k identity True writer w))"
  by (simp add: CreateCSIDriver_def Let_def case_prod_beta untouched_def WriteObject_keeps
      LogYAML_keeps split: sum.splits)

lemma CreateStorageClass_dryRun: "untouched w (snd (CreateStorageClass c k identity True writer w))"
  by (simp add: CreateStorageClass_def Let_def case_prod_beta untouched_def WriteObject_keeps
      LogYAML_keeps split: sum.splits)

lemma CreateService_dryRun: "untouched w (snd (CreateService c k identity True writer w))"
  by (simp add: CreateService_def Let_def case_prod_beta untouched_def WriteObject_keeps
      LogYAML_keeps split: sum.splits)

lemma CreateDaemonSet_dryRun:
  "untouched w (snd (CreateDaemonSet c k identity img True registry org lb nsel tol sp ap dd writer w))"
  by (simp add: CreateDaemonSet_def Let_def case_prod_beta untouched_def WriteObject_keeps
      LogYAML_keeps generateSanitizedUniqueNameFrom_world split: sum.splits)

lemma CreateControllerService_dryRun:
  "untouched w (snd (CreateControllerService c k tok identity True w))"
  by (simp add: CreateControllerService_def Let_def case_prod_beta untouched_def LogYAML_keeps
      split: sum.splits)

lemma CreateControllerSecret_dryRun:
  "untouched w (snd (CreateControllerSecret c k identity pub key True w))"
  by (simp add: CreateControllerSecret_def Let_def case_prod_beta untouched_def LogYAML_keeps
      split: sum.splits)

lemma CreateControllerSecret_dryRun_world:
  "calls (snd (CreateControllerSecret c k identity pub key True w)) = calls w"
  "secrets (snd (CreateControllerSecret c k identity pub key True w)) = secrets w"
  "objects (snd (CreateControllerSecret c k identity pub key True w)) = objects w"
  using CreateControllerSecret_dryRun [of w c k identity pub key] by (simp_all add: untouched_def)

lemma CreateDeployment_dryRun:
  "untouched w (snd (CreateDeployment c k identity img True registry org writer w))"
  by (simp add: CreateDeployment_def Let_def case_prod_beta untouched_def WriteObject_keeps
      LogYAML_keeps generateSanitizedUniqueNameFrom_world CreateControllerSecret_dryRun_world
      split: sum.splits option.splits)

lemma RegisterDriveValidationRules_dryRun:
  "untouched w (snd (RegisterDriveValidationRules c k identity True writer w))"
  by (simp add: RegisterDriveValidationRules_def Let_def case_prod_beta untouched_def WriteObject_keeps
      LogYAML_keeps split: sum.splits)

lemma CreateOrUpdateConversionKeyPairSecret_dryRun:
  "untouched w (snd (CreateOrUpdateConversionKeyPairSecret c k identity pub key True writer w))"
  by (simp add: CreateOrUpdateConversionKeyPairSecret_def Let_def case_prod_beta untouched_def
      WriteObject_keeps LogYAML_keeps split: sum.splits)

lemma CreateOrUpdateConversionCACertSecret_dryRun:
  "untouched w (snd (CreateOrUpdateConversionCACertSecret c k identity ca True writer w))"
  by (simp add: CreateOrUpdateConversionCACertSecret_def Let_def case_prod_beta untouched_def
      WriteObject_keeps LogYAML_keeps split: sum.splits)

lemma GetConversionCABundle_calls:
  "calls (snd (GetConversionCABundle c k identity dryRun w)) =
     calls w @ [Get (Secrets (SanitizeKubeResourceName k identity)) (conversionCACert c)]"
  "secrets (snd (GetConversionCABundle c k identity dryRun w)) = secrets w"
  "objects (snd (GetConversionCABundle c k identity dryRun w)) = objects w"
  by (simp_all add: GetConversionCABundle_def Let_def case_prod_beta Secrets_Get_world
      split: sum.splits option.splits)

lemma checkConversionSecrets_calls:
  "calls (snd (checkConversionSecrets c k identity w)) =
     calls w @ [Get (Secrets (SanitizeKubeResourceName k identity)) (conversionKeyPair c)]
   \<or> calls (snd (checkConversionSecrets c k identity w)) =
     calls w @ [Get (Secrets (SanitizeKubeResourceName k identity)) (conversionKeyPair c),
                Get (Secrets (SanitizeKubeResourceName k identity)) (conversionCACert c)]"
  "secrets (snd (checkConversionSecrets c k identity w)) = secrets w"
  "objects (snd (checkConversionSecrets c k identity w)) = objects w"
  by (simp_all add: checkConversionSecrets_def Let_def case_prod_beta Secrets_Get_world
      split: sum.splits option.splits)

lemma CreateConversionWebhookSecrets_dryRun_world:
  "calls (snd (CreateConversionWebhookSecrets c k identity True writer w)) =
     calls (snd (checkConversionSecrets c k identity w))"
  "secrets (snd (CreateConversionWebhookSecrets c k identity True writer w)) = secrets w"
  "objects (snd (CreateConversionWebhookSecrets c k identity True writer w)) = objects w"
proof -
  have kp: "\<And>pub key w. calls (snd (CreateOrUpdateConversionKeyPairSecret c k identity pub key True writer w)) = calls w
      \<and> secrets (snd (CreateOrUpdateConversionKeyPairSecret c k identity pub key True writer w)) = secrets w
      \<and> objects (snd (CreateOrUpdateConversionKeyPairSecret c k identity pub key True writer w)) = objects w"
    using CreateOrUpdateConversionKeyPairSecret_dryRun [of _ c k identity _ _ writer]
    by (simp add: untouched_def)
  have ca: "\<And>ca w. calls (snd (CreateOrUpdateConversionCACertSecret c k identity ca True writer w)) = calls w
      \<and> secrets (snd (CreateOrUpdateConversionCACertSecret c k identity ca True writer w)) = secrets w
      \<and> objects (snd (CreateOrUpdateConversionCACertSecret c k identity ca True writer w)) = objects w"
    using CreateOrUpdateConversionCACertSecret_dryRun [of _ c k identity _ writer]
    by (simp add: untouched_def)
  show "calls (snd (CreateConversionWebhookSecrets c k identity True writer w)) =
     calls (snd (checkConversionSecrets c k identity w))"
    by (simp add: CreateConversionWebhookSecrets_def Let_def case_prod_beta kp ca
        split: sum.splits option.splits)
  show "secrets (snd (CreateConversionWebhookSecrets c k identity True writer w)) = secrets w"
    by (simp add: CreateConversionWebhookSecrets_def Let_def case_prod_beta kp ca
        checkConversionSecrets_calls split: sum.splits option.splits)
  show "objects (snd (CreateConversionWebhookSecrets c k identity True writer w)) = objects w"
    by (simp add: CreateConversionWebhookSecrets_def Let_def case_prod_beta kp ca
        checkConversionSecrets_calls split: sum.splits option.splits)
qed

text \<open>What an accepting writer receives.\<close>

lemma CreateNamespace_writes:
  assumes "wr (NamespaceObj (CreateNamespace_descriptor c k identity)) = None"
  shows "written (snd (CreateNamespace c k identity dryRun (Some wr) w)) =
           written w @ [NamespaceObj (CreateNamespace_descriptor c k identity)]"
  using assms
  by (simp add: CreateNamespace_def Let_def case_prod_beta api_Create_keeps LogYAML_keeps
      WriteObject_Some split: sum.splits)

lemma CreateCSIDriver_writes:
  assumes "GetGroupKindVersions k ''storage.k8s.io'' ''CSIDriver'' [''v1'', ''v1beta1'', ''v1alpha1''] = Inr gvk"
    and "gvk_Version gvk = ''v1''"
    and "wr (CSIDriverV1Obj (CreateCSIDriver_descriptor c k identity ''storage.k8s.io/v1'')) = None"
  shows "written (snd (CreateCSIDriver c k identity dryRun (Some wr) w)) =
           written w @ [CSIDriverV1Obj (CreateCSIDriver_descriptor c k identity ''storage.k8s.io/v1'')]"
  using assms
  by (simp add: CreateCSIDriver_def Let_def case_prod_beta api_Create_keeps LogYAML_keeps
      WriteObject_Some split: sum.splits)

lemma CreateStorageClass_writes:
  assumes "GetGroupKindVersions k ''storage.k8s.io'' ''CSIDriver'' [''v1'', ''v1beta1'', ''v1alpha1''] = Inr gvk"
    and "gvk_Version gvk = ''v1''"
    and "wr (StorageClassV1Obj (CreateStorageClass_descriptor c k identity ''storage.k8s.io/v1'')) = None"
  shows "written (snd (CreateStorageClass c k identity dryRun (Some wr) w)) =
           written w @ [StorageClassV1Obj (CreateStorageClass_descriptor c k identity ''storage.k8s.io/v1'')]"
  using assms
  by (simp add: CreateStorageClass_def Let_def case_prod_beta api_Create_keeps LogYAML_keeps
      WriteObject_Some split: sum.splits)

lemma CreateStorageClass_beta_writes:
  assumes "GetGroupKindVersions k ''storage.k8s.io'' ''CSIDriver'' [''v1'', ''v1beta1'', ''v1alpha1''] = Inr gvk"
    and "gvk_Version gvk = ''v1beta1''"
    and "wr (StorageClassV1beta1Obj (CreateStorageClass_descriptor c k identity ''storage.k8s.io/v1beta1'')) = None"
  shows "written (snd (CreateStorageClass c k identity dryRun (Some wr) w)) =
           written w @ [StorageClassV1beta1Obj (CreateStorageClass_descriptor c k identity ''storage.k8s.io/v1beta1'')]"
  using assms
  by (simp add: CreateStorageClass_def Let_def case_prod_beta api_Create_keeps LogYAML_keeps
      WriteObject_Some split: sum.splits)

lemma CreateService_writes:
  assumes "wr (ServiceObj (CreateService_descriptor c k identity)) = None"
  shows "written (snd (CreateService c k identity dryRun (Some wr) w)) =
           written w @ [ServiceObj (CreateService_descriptor c k identity)]"
  using assms
  by (simp add: CreateService_def Let_def case_prod_beta api_Create_keeps LogYAML_keeps
      WriteObject_Some split: sum.splits)

lemma RegisterDriveValidationRules_writes:
  assumes "wr (ValidatingWebhookConfigurationObj (getDriveValidatingWebhookConfig c k identity w)) = None"
  shows "written (snd (RegisterDriveValidationRules c k identity dryRun (Some wr) w)) =
           written w @ [ValidatingWebhookConfigurationObj (getDriveValidatingWebhookConfig c k identity w)]"
  using assms
  by (simp add: RegisterDriveValidationRules_def Let_def case_prod_beta api_Create_keeps LogYAML_keeps
      WriteObject_Some split: sum.splits)

lemma CreateOrUpdateConversionKeyPairSecret_writes:
  assumes "wr (SecretObj (CreateOrUpdateConversionKeyPairSecret_descriptor c k identity pub key)) = None"
  shows "written (snd (CreateOrUpdateConversionKeyPairSecret c k identity pub key True (Some wr) w)) =
           written w @ [SecretObj (CreateOrUpdateConversionKeyPairSecret_descriptor c k identity pub key)]"
  using assms
  by (simp add: CreateOrUpdateConversionKeyPairSecret_def Let_def case_prod_beta LogYAML_keeps
      WriteObject_Some split: sum.splits)

lemma CreateOrUpdateConversionCACertSecret_writes:
  assumes "wr (SecretObj (CreateOrUpdateConversionCACertSecret_descriptor c k identity ca)) = None"
  shows "written (snd (CreateOrUpdateConversionCACertSecret c k identity ca True (Some wr) w)) =
           written w @ [SecretObj (CreateOrUpdateConversionCACertSecret_descriptor c k identity ca)]"
  using assms
  by (simp add: CreateOrUpdateConversionCACertSecret_def Let_def case_prod_beta LogYAML_keeps
      WriteObject_Some split: sum.splits)

lemma CreateDeployment_dryRun_writes:
  assumes "getCerts k [admissionWehookDNSName c] = Inr (ca, pub, key)"
    and "logFault k (SecretObj (CreateControllerSecret_descriptor c k identity pub key)) = None"
    and "wr (DeploymentObj (CreateDeployment_descriptor c k identity img registry org
              (fst (generateSanitizedUniqueNameFrom k (SanitizeKubeResourceName k identity) w)))) = None"
  shows "written (snd (CreateDeployment c k identity img True registry org (Some wr) w)) =
           written w @ [DeploymentObj (CreateDeployment_descriptor c k identity img registry org
              (fst (generateSanitizedUniqueNameFrom k (SanitizeKubeResourceName k identity) w)))]"
proof -
  have s: "\<And>w. fst (CreateControllerSecret c k identity pub key True w) = Inr ()"
    using assms(2) by (simp add: CreateControllerSecret_def Let_def LogYAML_def)
  show ?thesis
    using assms(1,3)
    by (simp add: CreateDeployment_def Let_def case_prod_beta LogYAML_keeps WriteObject_Some s
        generateSanitizedUniqueNameFrom_world CreateControllerSecret_keeps
        split: sum.splits option.splits)
qed
































text \<open>What \<open>GetConversionCABundle\<close> answers.\<close>

lemma GetConversionCABundle_result:
  "fst (Secrets_Get k (SanitizeKubeResourceName k identity) (conversionCACert c) w) = Inr secret \<Longrightarrow>
   fst (GetConversionCABundle c k identity dryRun w) =
     (case map_of (sec_Data secret) (caCertFileName c) of
        Some v \<Rightarrow> Inr v | None \<Rightarrow> Inl errEmptyCABundle)"
  "fst (Secrets_Get k (SanitizeKubeResourceName k identity) (conversionCACert c) w) = Inl NotFound \<Longrightarrow>
   fst (GetConversionCABundle c k identity True w) =
     (if conversionWebhookCaBundle w = [] then Inl errEmptyCABundle
      else Inr (conversionWebhookCaBundle w))"
  "fst (Secrets_Get k (SanitizeKubeResourceName k identity) (conversionCACert c) w) = Inl e \<Longrightarrow>
   e \<noteq> NotFound \<or> \<not> dryRun \<Longrightarrow>
   fst (GetConversionCABundle c k identity dryRun w) = Inl e"
  by (auto simp: GetConversionCABundle_def Let_def case_prod_beta Secrets_Get_world IsNotFound_def
      split: sum.splits option.splits)

text \<open>What \<open>CreateConversionWebhookSecrets\<close> does once it has looked for the secrets.\<close>

lemma CreateConversionWebhookSecrets_present:
  assumes "fst (Secrets_Get k (SanitizeKubeResourceName k identity) (conversionKeyPair c) w) = Inr kp"
    and "fst (Secrets_Get k (SanitizeKubeResourceName k identity) (conversionCACert c)
           (w\<lparr>calls := calls w @
              [Get (Secrets (SanitizeKubeResourceName k identity)) (conversionKeyPair c)]\<rparr>)) = Inr cs"
  shows "CreateConversionWebhookSecrets c k identity dryRun writer w =
           (Inr (), w\<lparr>calls := calls w @
              [Get (Secrets (SanitizeKubeResourceName k identity)) (conversionKeyPair c),
               Get (Secrets (SanitizeKubeResourceName k identity)) (conversionCACert c)]\<rparr>)"
  using assms
  by (auto simp: CreateConversionWebhookSecrets_def checkConversionSecrets_def Let_def case_prod_beta
      Secrets_Get_world prod_eq_iff split: sum.splits option.splits)

lemma CreateConversionWebhookSecrets_dryRun_absent:
  assumes "fst (Secrets_Get k (SanitizeKubeResourceName k identity) (conversionKeyPair c) w) = Inl NotFound"
    and "getCerts k [getConversionWebhookDNSName k identity] = Inr (ca, pub, key)"
    and "wr (SecretObj (CreateOrUpdateConversionKeyPairSecret_descriptor c k identity pub key)) = None"
    and "wr (SecretObj (CreateOrUpdateConversionCACertSecret_descriptor c k identity ca)) = None"
    and "logFault k (SecretObj (CreateOrUpdateConversionKeyPairSecret_descriptor c k identity pub key)) = None"
    and "logFault k (SecretObj (CreateOrUpdateConversionCACertSecret_descriptor c k identity ca)) = None"
  shows "CreateConversionWebhookSecrets c k identity True (Some wr) w =
           (Inr (),
            w\<lparr>calls := calls w @
                 [Get (Secrets (SanitizeKubeResourceName k identity)) (conversionKeyPair c)],
              conversionWebhookCaBundle := ca,
              written := written w @
                 [SecretObj (CreateOrUpdateConversionKeyPairSecret_descriptor c k identity pub key),
                  SecretObj (CreateOrUpdateConversionCACertSecret_descriptor c k identity ca)],
              printed := printed w @
                 [SecretObj (CreateOrUpdateConversionKeyPairSecret_descriptor c k identity pub key),
                  SecretObj (CreateOrUpdateConversionCACertSecret_descriptor c k identity ca)]\<rparr>)"
proof -
  let ?w1 = "w\<lparr>calls := calls w @
                 [Get (Secrets (SanitizeKubeResourceName k identity)) (conversionKeyPair c)]\<rparr>"
  have ch: "checkConversionSecrets c k identity w = (Inl NotFound, ?w1)"
    using assms(1)
    by (auto simp: checkConversionSecrets_def Let_def case_prod_beta Secrets_Get_world prod_eq_iff
        split: sum.splits)
  have kp: "\<And>w'. CreateOrUpdateConversionKeyPairSecret c k identity pub key True (Some wr) w' =
      (Inr (), w'\<lparr>written := written w' @
                 [SecretObj (CreateOrUpdateConversionKeyPairSecret_descriptor c k identity pub key)],
               printed := printed w' @
                 [SecretObj (CreateOrUpdateConversionKeyPairSecret_descriptor c k identity pub key)]\<rparr>)"
    using assms(3,5)
    by (simp add: CreateOrUpdateConversionKeyPairSecret_def Let_def WriteObject_def LogYAML_def)
  have cs: "\<And>w'. CreateOrUpdateConversionCACertSecret c k identity ca True (Some wr) w' =
      (Inr (), w'\<lparr>written := written w' @
                 [SecretObj (CreateOrUpdateConversionCACertSecret_descriptor c k identity ca)],
               printed := printed w' @
                 [SecretObj (CreateOrUpdateConversionCACertSecret_descriptor c k identity ca)]\<rparr>)"
    using assms(4,6)
    by (simp add: CreateOrUpdateConversionCACertSecret_def Let_def WriteObject_def LogYAML_def)
  show ?thesis
    using assms(2)
    by (simp add: CreateConversionWebhookSecrets_def ch kp cs IsNotFound_def Let_def)
qed

lemma CreateConversionWebhookSecrets_get_error:
  assumes "fst (Secrets_Get k (SanitizeKubeResourceName k identity) (conversionKeyPair c) w) = Inl e"
    and "e \<noteq> NotFound"
  shows "CreateConversionWebhookSecrets c k identity dryRun writer w =
           (Inl e, w\<lparr>calls := calls w @
              [Get (Secrets (SanitizeKubeResourceName k identity)) (conversionKeyPair c)]\<rparr>)"
  using assms
  by (auto simp: CreateConversionWebhookSecrets_def checkConversionSecrets_def Let_def case_prod_beta
      Secrets_Get_world prod_eq_iff IsNotFound_def split: sum.splits option.splits)

section \<open>Security profiles of the daemon set\<close>

text \<open>
  C9. In \<open>CreateDaemonSet\<close>, when the seccomp profile name is the empty string the
  security context of the driver container has no seccomp profile at all (the other
  two containers have no security context), and when the apparmor profile name is the
  empty string the pod template's annotations are the created-by annotation alone; a
  non-empty seccomp name gives a localhost profile of that name and a non-empty
  apparmor name gives the apparmor annotation with that name. The descriptor \<open>ds\<close> is
  the one the operation submits, and the one it serializes to a writer that accepts it.
\<close>

theorem CreateDaemonSet_security_profiles:
  "\<exists>ds. calls (snd (CreateDaemonSet c k identity img False registry org lb nsel tol
                     seccompProfileName apparmorProfileName dd None w))
          = calls w @ [Create (DaemonSets (SanitizeKubeResourceName k identity)) (DaemonSetObj ds)]
      \<and> (wr (DaemonSetObj ds) = None \<longrightarrow>
           written (snd (CreateDaemonSet c k identity img dryRun registry org lb nsel tol
                     seccompProfileName apparmorProfileName dd (Some wr) w))
           = written w @ [DaemonSetObj ds])
      \<and> map c_SecurityContext (ps_Containers (pt_Spec (ds_Template ds))) =
           [None,
            Some \<lparr>sctx_Privileged = Some True,
                  sctx_SeccompProfile =
                    (if seccompProfileName = [] then None
                     else Some \<lparr>scp_Type = SeccompProfileTypeLocalhost,
                                 scp_LocalhostProfile = Some seccompProfileName\<rparr>)\<rparr>,
            None]
      \<and> om_Annotations (pt_ObjectMeta (ds_Template ds)) =
           (if apparmorProfileName = [] then [(CreatedByLabel c, DirectCSIPluginName c)]
            else AList.update ''container.apparmor.security.beta.kubernetes.io/direct-csi''
                   apparmorProfileName [(CreatedByLabel c, DirectCSIPluginName c)])
      \<and> (apparmorProfileName \<noteq> [] \<longrightarrow>
           map_of (om_Annotations (pt_ObjectMeta (ds_Template ds)))
             ''container.apparmor.security.beta.kubernetes.io/direct-csi'' = Some apparmorProfileName)"
proof -
  let ?ds = "CreateDaemonSet_descriptor c k identity img registry org lb nsel tol
               seccompProfileName apparmorProfileName dd
               (fst (generateSanitizedUniqueNameFrom k (SanitizeKubeResourceName k identity) w))"
  have 1: "calls (snd (CreateDaemonSet c k identity img False registry org lb nsel tol
                     seccompProfileName apparmorProfileName dd None w))
          = calls w @ [Create (DaemonSets (SanitizeKubeResourceName k identity)) (DaemonSetObj ?ds)]"
    by (rule CreateDaemonSet_submits)
  have 2: "wr (DaemonSetObj ?ds) = None \<longrightarrow>
           written (snd (CreateDaemonSet c k identity img dryRun registry org lb nsel tol
                     seccompProfileName apparmorProfileName dd (Some wr) w))
           = written w @ [DaemonSetObj ?ds]"
    using CreateDaemonSet_writes by blast
  have 3: "apparmorProfileName \<noteq> [] \<longrightarrow>
           map_of (om_Annotations (pt_ObjectMeta (ds_Template ?ds)))
             ''container.apparmor.security.beta.kubernetes.io/direct-csi'' = Some apparmorProfileName"
    by (simp add: CreateDaemonSet_descriptor_annotations update_conv')
  have 4: "map c_SecurityContext (ps_Containers (pt_Spec (ds_Template ?ds))) =
           [None,
            Some \<lparr>sctx_Privileged = Some True,
                  sctx_SeccompProfile =
                    (if seccompProfileName = [] then None
                     else Some \<lparr>scp_Type = SeccompProfileTypeLocalhost,
                                 scp_LocalhostProfile = Some seccompProfileName\<rparr>)\<rparr>,
            None]"
    by (rule CreateDaemonSet_descriptor_securityContexts)
  have 5: "om_Annotations (pt_ObjectMeta (ds_Template ?ds)) =
           (if apparmorProfileName = [] then [(CreatedByLabel c, DirectCSIPluginName c)]
            else AList.update ''container.apparmor.security.beta.kubernetes.io/direct-csi''
                   apparmorProfileName [(CreatedByLabel c, DirectCSIPluginName c)])"
    by (rule CreateDaemonSet_descriptor_annotations)
  from 1 2 3 4 5 show ?thesis
    by (intro exI[of _ ?ds] conjI)
qed

theorem CreateDaemonSet_security_profiles_witness:
  "\<exists>ds. written (snd (CreateDaemonSet sampleConstants sampleEnv ''direct-csi-min-io'' ''direct-csi:latest''
                     True ''quay.io'' ''minio'' False [] [] ''direct-csi-seccomp'' ''direct-csi-apparmor''
                     False (Some sampleWriter) sampleWorld))
          = [DaemonSetObj ds]
      \<and> map c_SecurityContext (ps_Containers (pt_Spec (ds_Template ds))) =
           [None,
            Some \<lparr>sctx_Privileged = Some True,
                  sctx_SeccompProfile =
                     Some \<lparr>scp_Type = SeccompProfileTypeLocalhost,
                           scp_LocalhostProfile = Some ''direct-csi-seccomp''\<rparr>\<rparr>,
            None]
      \<and> map_of (om_Annotations (pt_ObjectMeta (ds_Template ds)))
             ''container.apparmor.security.beta.kubernetes.io/direct-csi'' = Some ''direct-csi-apparmor''"
  using CreateDaemonSet_security_profiles [of sampleConstants sampleEnv "''direct-csi-min-io''"
      "''direct-csi:latest''" "''quay.io''" "''minio''" False "[]" "[]" "''direct-csi-seccomp''"
      "''direct-csi-apparmor''" False sampleWorld sampleWriter True]
  by (auto simp: sampleWriter_def sampleWorld_def)

section \<open>The selector token of the workloads\<close>

text \<open>
  C6 (as amended). Within a single call of \<open>CreateDaemonSet\<close> or \<open>CreateDeployment\<close>
  the generated selector token \<open>tok\<close> is the value of the label selector and of the pod
  template's matching label of the descriptor the call emits, and that descriptor is a
  function of the arguments and of the token alone. Each call draws exactly one random
  suffix; the token is the sanitized name (cut to 249 bytes when it has 255 or more), a
  hyphen and the suffix, so the tokens of two calls for the same name are equal exactly
  when the two draws are equal.
\<close>

theorem selector_token_per_call:
  "let tok = fst (generateSanitizedUniqueNameFrom k (SanitizeKubeResourceName k identity) w);
       ds = CreateDaemonSet_descriptor c k identity img registry org lb nsel tol sp ap dd tok;
       dp = CreateDeployment_descriptor c k identity img registry org tok;
       w1 = snd (CreateDaemonSet c k identity img dryRun registry org lb nsel tol sp ap dd writer w);
       w2 = snd (CreateDeployment c k identity img dryRun registry org writer w)
   in (written w1 = written w \<or> written w1 = written w @ [DaemonSetObj ds])
    \<and> (printed w1 = printed w \<or> printed w1 = printed w @ [DaemonSetObj ds])
    \<and> (calls w1 = calls w \<or>
        calls w1 = calls w @ [Create (DaemonSets (SanitizeKubeResourceName k identity)) (DaemonSetObj ds)])
    \<and> (written w2 = written w \<or> written w2 = written w @ [DeploymentObj dp])
    \<and> (directCSISelector c \<noteq> [] \<longrightarrow>
          ds_Selector ds = Some \<lparr>ls_MatchLabels = [(directCSISelector c, tok)]\<rparr>
        \<and> dp_Selector dp = Some \<lparr>ls_MatchLabels = [(directCSISelector c, tok)]\<rparr>)
    \<and> map_of (om_Labels (pt_ObjectMeta (ds_Template ds))) (directCSISelector c) = Some tok
    \<and> map_of (om_Labels (pt_ObjectMeta (dp_Template dp))) (directCSISelector c) = Some tok
    \<and> randomCalls w1 = Suc (randomCalls w)
    \<and> randomCalls w2 = Suc (randomCalls w)
    \<and> tok = (if 255 \<le> length (SanitizeKubeResourceName k (SanitizeKubeResourceName k identity))
              then take 249 (SanitizeKubeResourceName k (SanitizeKubeResourceName k identity))
              else SanitizeKubeResourceName k (SanitizeKubeResourceName k identity))
             @ ''-'' @ randomStrings k (randomCalls w) 5
    \<and> (fst (generateSanitizedUniqueNameFrom k name w) = fst (generateSanitizedUniqueNameFrom k name w')
         \<longleftrightarrow> randomStrings k (randomCalls w) 5 = randomStrings k (randomCalls w') 5)"
  unfolding Let_def
  apply (intro conjI)
            apply (rule CreateDaemonSet_emits)
           apply (rule CreateDaemonSet_emits)
          apply (rule CreateDaemonSet_emits)
         apply (rule CreateDeployment_emits)
        apply (simp add: CreateDaemonSet_descriptor_selector CreateDeployment_descriptor_selector
                 AddLabelToSelector_empty)
       apply (simp add: CreateDaemonSet_descriptor_selector)
      apply (simp add: CreateDeployment_descriptor_selector)
     apply (rule CreateDaemonSet_randomCalls)
    apply (rule CreateDeployment_randomCalls)
   apply (simp add: generateSanitizedUniqueNameFrom_token)
  apply (simp add: generateSanitizedUniqueNameFrom_token)
  done

theorem selector_token_per_call_witness:
  "directCSISelector sampleConstants \<noteq> []
   \<and> ds_Selector (CreateDaemonSet_descriptor sampleConstants sampleEnv ''direct-csi-min-io''
        ''direct-csi:latest'' ''quay.io'' ''minio'' False [] [] [] [] False
        (fst (generateSanitizedUniqueNameFrom sampleEnv
                (SanitizeKubeResourceName sampleEnv ''direct-csi-min-io'') sampleWorld)))
      = Some \<lparr>ls_MatchLabels =
          [(directCSISelector sampleConstants,
            fst (generateSanitizedUniqueNameFrom sampleEnv
                   (SanitizeKubeResourceName sampleEnv ''direct-csi-min-io'') sampleWorld))]\<rparr>
   \<and> map_of (om_Labels (pt_ObjectMeta (ds_Template
        (CreateDaemonSet_descriptor sampleConstants sampleEnv ''direct-csi-min-io''
           ''direct-csi:latest'' ''quay.io'' ''minio'' False [] [] [] [] False
           (fst (generateSanitizedUniqueNameFrom sampleEnv
                   (SanitizeKubeResourceName sampleEnv ''direct-csi-min-io'') sampleWorld))))))
        (directCSISelector sampleConstants)
      = Some (fst (generateSanitizedUniqueNameFrom sampleEnv
                     (SanitizeKubeResourceName sampleEnv ''direct-csi-min-io'') sampleWorld))
   \<and> randomCalls (snd (CreateDaemonSet sampleConstants sampleEnv ''direct-csi-min-io''
        ''direct-csi:latest'' True ''quay.io'' ''minio'' False [] [] [] [] False (Some sampleWriter)
        sampleWorld)) = Suc (randomCalls sampleWorld)"
proof -
  have h: "directCSISelector sampleConstants \<noteq> []"
    by (simp add: sampleConstants_def)
  note T = selector_token_per_call [where k = sampleEnv and identity = "''direct-csi-min-io''"
        and w = sampleWorld and c = sampleConstants and img = "''direct-csi:latest''"
        and registry = "''quay.io''" and org = "''minio''" and lb = False and nsel = "[]"
        and tol = "[]" and sp = "[]" and ap = "[]" and dd = False and dryRun = True
        and writer = "Some sampleWriter" and name = "''direct-csi-min-io''" and w' = sampleWorld,
        unfolded Let_def]
  from h T show ?thesis
    by blast
qed

text \<open>
  C6 as stated fails where it says that the tokens of two independent calls differ:
  nothing in the module compares or records tokens, and a random source that answers
  two draws alike gives two calls the same token.
\<close>

theorem selector_token_repeats:
  "fst (generateSanitizedUniqueNameFrom sampleEnv ''direct-csi-min-io'' sampleWorld) = ''direct-csi-min-io-xxxxx''
   \<and> fst (generateSanitizedUniqueNameFrom sampleEnv ''direct-csi-min-io''
        (snd (CreateDaemonSet sampleConstants sampleEnv ''direct-csi-min-io'' ''direct-csi:latest'' True
                ''quay.io'' ''minio'' False [] [] [] [] False (Some sampleWriter) sampleWorld)))
      = ''direct-csi-min-io-xxxxx''
   \<and> written (snd (CreateDaemonSet sampleConstants sampleEnv ''direct-csi-min-io'' ''direct-csi:latest'' True
                ''quay.io'' ''minio'' False [] [] [] [] False (Some sampleWriter)
        (snd (CreateDaemonSet sampleConstants sampleEnv ''direct-csi-min-io'' ''direct-csi:latest'' True
                ''quay.io'' ''minio'' False [] [] [] [] False (Some sampleWriter) sampleWorld))))
      = [DaemonSetObj (CreateDaemonSet_descriptor sampleConstants sampleEnv ''direct-csi-min-io''
                         ''direct-csi:latest'' ''quay.io'' ''minio'' False [] [] [] [] False
                         ''direct-csi-min-io-xxxxx''),
         DaemonSetObj (CreateDaemonSet_descriptor sampleConstants sampleEnv ''direct-csi-min-io''
                         ''direct-csi:latest'' ''quay.io'' ''minio'' False [] [] [] [] False
                         ''direct-csi-min-io-xxxxx'')]"
proof -
  have san: "SanitizeKubeResourceName sampleEnv ''direct-csi-min-io'' = ''direct-csi-min-io''"
    by (simp add: sampleEnv_def)
  have r: "replicate 5 (CHR ''x'') = ''xxxxx''"
    by (simp add: numeral_eq_Suc)
  have t: "\<And>w. fst (generateSanitizedUniqueNameFrom sampleEnv ''direct-csi-min-io'' w) = ''direct-csi-min-io-xxxxx''"
    by (simp add: generateSanitizedUniqueNameFrom_token sampleEnv_def r)
  have w0: "written sampleWorld = []" by (simp add: sampleWorld_def)
  show ?thesis
    by (simp add: t CreateDaemonSet_writes san sampleWriter_def w0)
qed

section \<open>The CA bundle of the validating webhook\<close>

text \<open>
  C8 (as amended). The validating webhook configuration that
  \<open>getDriveValidatingWebhookConfig\<close> builds, and that \<open>RegisterDriveValidationRules\<close>
  submits, has one webhook whose CA bundle is the package-level variable
  \<open>validationWebhookCaBundle\<close> as it is when the configuration is built.
  \<open>CreateDeployment\<close> sets the variable to the CA certificate that \<open>getCerts\<close> returns,
  so a configuration built after a call of \<open>CreateDeployment\<close> that got its certificates
  carries that certificate.
\<close>

theorem validating_webhook_CABundle:
  "map (wcc_CABundle \<circ> vw_ClientConfig)
       (vwc_Webhooks (getDriveValidatingWebhookConfig c k identity w)) = [validationWebhookCaBundle w]
   \<and> calls (snd (RegisterDriveValidationRules c k identity False None w)) =
       calls w @ [Create ValidatingWebhookConfigurations
         (ValidatingWebhookConfigurationObj (getDriveValidatingWebhookConfig c k identity w))]
   \<and> (getCerts k [admissionWehookDNSName c] = Inr (ca, pub, key) \<longrightarrow>
        validationWebhookCaBundle
          (snd (CreateDeployment c k identity img dryRun registry org writer w)) = ca
      \<and> map (wcc_CABundle \<circ> vw_ClientConfig)
          (vwc_Webhooks (getDriveValidatingWebhookConfig c k identity
             (snd (CreateDeployment c k identity img dryRun registry org writer w)))) = [ca])"
  by (simp add: getDriveValidatingWebhookConfig_CABundle RegisterDriveValidationRules_submits
      CreateDeployment_bundle del: map_map)

theorem validating_webhook_CABundle_witness:
  "getCerts sampleEnv [admissionWehookDNSName sampleConstants] = Inr ([1, 2], [3, 4], [5, 6])
   \<and> map (wcc_CABundle \<circ> vw_ClientConfig)
          (vwc_Webhooks (getDriveValidatingWebhookConfig sampleConstants sampleEnv ''direct-csi-min-io''
             (snd (CreateDeployment sampleConstants sampleEnv ''direct-csi-min-io'' ''direct-csi:latest''
                     False ''quay.io'' ''minio'' None sampleWorld)))) = [[1, 2]]"
proof -
  have h: "getCerts sampleEnv [admissionWehookDNSName sampleConstants] = Inr ([1, 2], [3, 4], [5, 6])"
    by (simp add: sampleEnv_def)
  show ?thesis
    using h validating_webhook_CABundle [where k = sampleEnv and c = sampleConstants
        and ca = "[1, 2]" and pub = "[3, 4]" and key = "[5, 6]" and identity = "''direct-csi-min-io''"
        and img = "''direct-csi:latest''" and dryRun = False and registry = "''quay.io''"
        and org = "''minio''" and writer = None and w = sampleWorld]
    by simp
qed

text \<open>
  C8 as stated fails: there is no guard on the bundle. A fresh process has an empty
  \<open>validationWebhookCaBundle\<close>, and registering the validation rules before
  \<open>CreateDeployment\<close> has run submits a webhook with an empty CA bundle.
\<close>

theorem validating_webhook_CABundle_empty:
  "wcc_CABundle (vw_ClientConfig (hd (vwc_Webhooks
      (getDriveValidatingWebhookConfig sampleConstants sampleEnv ''direct-csi-min-io'' sampleWorld)))) = []
   \<and> calls (snd (RegisterDriveValidationRules sampleConstants sampleEnv ''direct-csi-min-io'' False None
        sampleWorld)) =
      [Create ValidatingWebhookConfigurations (ValidatingWebhookConfigurationObj
         (getDriveValidatingWebhookConfig sampleConstants sampleEnv ''direct-csi-min-io'' sampleWorld))]"
  by (simp add: RegisterDriveValidationRules_submits)
     (simp add: getDriveValidatingWebhookConfig_def Let_def sampleWorld_def)

section \<open>Serialization to the writer\<close>

text \<open>
  C3. When the negotiator selects \<open>v1beta1\<close>, \<open>CreateCSIDriver\<close> builds its descriptor
  and prints or submits it without serializing it to the supplied writer: whatever the
  writer and the dry-run setting, nothing is written. (The \<open>v1\<close> branch of the same
  operation and both branches of \<open>CreateStorageClass\<close> serialize the descriptor first.)
\<close>

theorem CreateCSIDriver_v1beta1_skips_writer:
  assumes "GetGroupKindVersions k ''storage.k8s.io'' ''CSIDriver'' [''v1'', ''v1beta1'', ''v1alpha1'']
             = Inr gvk"
    and "gvk_Version gvk = ''v1beta1''"
  shows "written (snd (CreateCSIDriver c k identity dryRun writer w)) = written w
       \<and> calls (snd (CreateCSIDriver c k identity False writer w)) =
           calls w @ [Create CSIDrivers_V1beta1
             (CSIDriverV1beta1Obj (CreateCSIDriver_descriptor c k identity ''storage.k8s.io/v1beta1''))]
       \<and> CreateCSIDriver c k identity True writer w =
           LogYAML k (CSIDriverV1beta1Obj
             (CreateCSIDriver_descriptor c k identity ''storage.k8s.io/v1beta1'')) w"
  using assms
  by (simp add: CreateCSIDriver_def Let_def case_prod_beta api_Create_keeps LogYAML_keeps
      split: sum.splits)

theorem CreateCSIDriver_v1beta1_skips_writer_witness:
  "GetGroupKindVersions (sampleEnv\<lparr>apiVersions := (\<lambda>grp knd. [''v1beta1''])\<rparr>)
       ''storage.k8s.io'' ''CSIDriver'' [''v1'', ''v1beta1'', ''v1alpha1'']
     = Inr \<lparr>gvk_Group = ''storage.k8s.io'', gvk_Version = ''v1beta1'', gvk_Kind = ''CSIDriver''\<rparr>
   \<and> written (snd (CreateCSIDriver sampleConstants (sampleEnv\<lparr>apiVersions := (\<lambda>grp knd. [''v1beta1''])\<rparr>)
        ''direct-csi-min-io'' True (Some sampleWriter) sampleWorld)) = []
   \<and> calls (snd (CreateCSIDriver sampleConstants (sampleEnv\<lparr>apiVersions := (\<lambda>grp knd. [''v1beta1''])\<rparr>)
        ''direct-csi-min-io'' False (Some sampleWriter) sampleWorld)) =
       [Create CSIDrivers_V1beta1 (CSIDriverV1beta1Obj
          (CreateCSIDriver_descriptor sampleConstants (sampleEnv\<lparr>apiVersions := (\<lambda>grp knd. [''v1beta1''])\<rparr>)
             ''direct-csi-min-io'' ''storage.k8s.io/v1beta1''))]"
proof -
  let ?k = "sampleEnv\<lparr>apiVersions := (\<lambda>grp knd. [''v1beta1''])\<rparr>"
  let ?gvk = "\<lparr>gvk_Group = ''storage.k8s.io'', gvk_Version = ''v1beta1'', gvk_Kind = ''CSIDriver''\<rparr>"
  have h1: "GetGroupKindVersions ?k ''storage.k8s.io'' ''CSIDriver'' [''v1'', ''v1beta1'', ''v1alpha1'']
              = Inr ?gvk"
    by (simp add: GetGroupKindVersions_def)
  have h2: "gvk_Version ?gvk = ''v1beta1''" by simp
  have w0: "written sampleWorld = []" "calls sampleWorld = []" by (simp_all add: sampleWorld_def)
  show ?thesis
    using h1 w0
      CreateCSIDriver_v1beta1_skips_writer [OF h1 h2, of sampleConstants "''direct-csi-min-io''" True
        "Some sampleWriter" sampleWorld]
      CreateCSIDriver_v1beta1_skips_writer [OF h1 h2, of sampleConstants "''direct-csi-min-io''" False
        "Some sampleWriter" sampleWorld]
    by simp
qed

section \<open>Errors of the create calls\<close>



section \<open>Dry runs\<close>

text \<open>
  C1 (as amended). With \<open>dryRun\<close> set, the operations that build an object
  (\<open>CreateNamespace\<close>, \<open>CreateCSIDriver\<close>, \<open>CreateStorageClass\<close>, \<open>CreateService\<close>,
  \<open>CreateDaemonSet\<close>, \<open>CreateDeployment\<close>, \<open>CreateControllerService\<close>,
  \<open>CreateControllerSecret\<close>, \<open>RegisterDriveValidationRules\<close> and the two conversion-secret
  reconcilers) issue no create, update or get call and leave the cluster as it was.
  A writer that accepts the object receives the descriptor of the operation: for
  \<open>CreateCSIDriver\<close> when the negotiator selects \<open>v1\<close>, and for \<open>CreateDeployment\<close> once the
  certificates were generated and the controller secret was printed.

  \<open>GetConversionCABundle\<close> issues one get call for the CA secret whatever \<open>dryRun\<close> is,
  and changes nothing in the cluster. If the secret is returned, the result is the value
  stored under \<open>caCertFileName\<close>, or \<open>errEmptyCABundle\<close> when there is none. If the call
  answers \<open>NotFound\<close> in a dry run, the result is the cached bundle, or
  \<open>errEmptyCABundle\<close> when the cache is empty. Any other error, and \<open>NotFound\<close> outside a
  dry run, is returned.

  \<open>CreateConversionWebhookSecrets\<close> in a dry run issues one or two get calls (the check
  for the existing secrets) and no other call, and changes nothing in the cluster. When
  both secrets are returned it succeeds and does nothing else; an error other than
  \<open>NotFound\<close> for the key pair secret is returned; when the key pair secret is not found
  and the certificates are generated, it caches the CA certificate, and an accepting
  writer and the printer receive the descriptors of the two secrets.
\<close>

theorem dryRun_issues_no_create_or_update:
  "untouched w (snd (CreateNamespace c k identity True writer w))
 \<and> untouched w (snd (CreateCSIDriver c k identity True writer w))
 \<and> untouched w (snd (CreateStorageClass c k identity True writer w))
 \<and> untouched w (snd (CreateService c k identity True writer w))
 \<and> untouched w (snd (CreateDaemonSet c k identity img True registry org lb nsel tol sp ap dd writer w))
 \<and> untouched w (snd (CreateDeployment c k identity img True registry org writer w))
 \<and> untouched w (snd (CreateControllerService c k tok identity True w))
 \<and> untouched w (snd (CreateControllerSecret c k identity pub key True w))
 \<and> untouched w (snd (RegisterDriveValidationRules c k identity True writer w))
 \<and> untouched w (snd (CreateOrUpdateConversionKeyPairSecret c k identity pub key True writer w))
 \<and> untouched w (snd (CreateOrUpdateConversionCACertSecret c k identity ca True writer w))
 \<and> calls (snd (GetConversionCABundle c k identity dryRun w)) =
      calls w @ [Get (Secrets (SanitizeKubeResourceName k identity)) (conversionCACert c)]
 \<and> secrets (snd (GetConversionCABundle c k identity dryRun w)) = secrets w
 \<and> objects (snd (GetConversionCABundle c k identity dryRun w)) = objects w
 \<and> (calls (snd (CreateConversionWebhookSecrets c k identity True writer w)) =
       calls w @ [Get (Secrets (SanitizeKubeResourceName k identity)) (conversionKeyPair c)]
    \<or> calls (snd (CreateConversionWebhookSecrets c k identity True writer w)) =
       calls w @ [Get (Secrets (SanitizeKubeResourceName k identity)) (conversionKeyPair c),
                  Get (Secrets (SanitizeKubeResourceName k identity)) (conversionCACert c)])
 \<and> secrets (snd (CreateConversionWebhookSecrets c k identity True writer w)) = secrets w
 \<and> objects (snd (CreateConversionWebhookSecrets c k identity True writer w)) = objects w
 \<and> (wr (NamespaceObj (CreateNamespace_descriptor c k identity)) = None \<longrightarrow>
    written (snd (CreateNamespace c k identity True (Some wr) w)) =
      written w @ [NamespaceObj (CreateNamespace_descriptor c k identity)])
 \<and> (GetGroupKindVersions k ''storage.k8s.io'' ''CSIDriver'' [''v1'', ''v1beta1'', ''v1alpha1'']
      = Inr gvk \<longrightarrow>
    gvk_Version gvk = ''v1'' \<longrightarrow>
    wr (CSIDriverV1Obj (CreateCSIDriver_descriptor c k identity ''storage.k8s.io/v1'')) = None \<longrightarrow>
    written (snd (CreateCSIDriver c k identity True (Some wr) w)) =
      written w @ [CSIDriverV1Obj (CreateCSIDriver_descriptor c k identity ''storage.k8s.io/v1'')])
 \<and> (GetGroupKindVersions k ''storage.k8s.io'' ''CSIDriver'' [''v1'', ''v1beta1'', ''v1alpha1'']
      = Inr gvk \<longrightarrow>
    gvk_Version gvk = ''v1'' \<longrightarrow>
    wr (StorageClassV1Obj (CreateStorageClass_descriptor c k identity ''storage.k8s.io/v1''))
      = None \<longrightarrow>
    written (snd (CreateStorageClass c k identity True (Some wr) w)) =
      written w @ [StorageClassV1Obj
                     (CreateStorageClass_descriptor c k identity ''storage.k8s.io/v1'')])
 \<and> (GetGroupKindVersions k ''storage.k8s.io'' ''CSIDriver'' [''v1'', ''v1beta1'', ''v1alpha1'']
      = Inr gvk \<longrightarrow>
    gvk_Version gvk = ''v1beta1'' \<longrightarrow>
    wr (StorageClassV1beta1Obj
          (CreateStorageClass_descriptor c k identity ''storage.k8s.io/v1beta1'')) = None \<longrightarrow>
    written (snd (CreateStorageClass c k identity True (Some wr) w)) =
      written w @ [StorageClassV1beta1Obj
                     (CreateStorageClass_descriptor c k identity ''storage.k8s.io/v1beta1'')])
 \<and> (wr (ServiceObj (CreateService_descriptor c k identity)) = None \<longrightarrow>
    written (snd (CreateService c k identity True (Some wr) w)) =
      written w @ [ServiceObj (CreateService_descriptor c k identity)])
 \<and> (wr (DaemonSetObj
          (CreateDaemonSet_descriptor c k identity img registry org lb nsel tol sp ap dd
             (fst (generateSanitizedUniqueNameFrom k (SanitizeKubeResourceName k identity) w))))
      = None \<longrightarrow>
    written (snd (CreateDaemonSet c k identity img True registry org lb nsel tol sp ap dd
                    (Some wr) w)) =
      written w @ [DaemonSetObj
          (CreateDaemonSet_descriptor c k identity img registry org lb nsel tol sp ap dd
             (fst (generateSanitizedUniqueNameFrom k (SanitizeKubeResourceName k identity) w)))])
 \<and> (getCerts k [admissionWehookDNSName c] = Inr (ca, pub, key) \<longrightarrow>
    logFault k (SecretObj (CreateControllerSecret_descriptor c k identity pub key)) = None \<longrightarrow>
    wr (DeploymentObj
          (CreateDeployment_descriptor c k identity img registry org
             (fst (generateSanitizedUniqueNameFrom k (SanitizeKubeResourceName k identity) w))))
      = None \<longrightarrow>
    written (snd (CreateDeployment c k identity img True registry org (Some wr) w)) =
      written w @ [DeploymentObj
          (CreateDeployment_descriptor c k identity img registry org
             (fst (generateSanitizedUniqueNameFrom k (SanitizeKubeResourceName k identity) w)))])
 \<and> (wr (ValidatingWebhookConfigurationObj (getDriveValidatingWebhookConfig c k identity w))
      = None \<longrightarrow>
    written (snd (RegisterDriveValidationRules c k identity True (Some wr) w)) =
      written w @ [ValidatingWebhookConfigurationObj
                     (getDriveValidatingWebhookConfig c k identity w)])
 \<and> (wr (SecretObj (CreateOrUpdateConversionKeyPairSecret_descriptor c k identity pub key))
      = None \<longrightarrow>
    written (snd (CreateOrUpdateConversionKeyPairSecret c k identity pub key True (Some wr) w)) =
      written w @ [SecretObj
                     (CreateOrUpdateConversionKeyPairSecret_descriptor c k identity pub key)])
 \<and> (wr (SecretObj (CreateOrUpdateConversionCACertSecret_descriptor c k identity ca))
      = None \<longrightarrow>
    written (snd (CreateOrUpdateConversionCACertSecret c k identity ca True (Some wr) w)) =
      written w @ [SecretObj (CreateOrUpdateConversionCACertSecret_descriptor c k identity ca)])
 \<and> (fst (Secrets_Get k (SanitizeKubeResourceName k identity) (conversionCACert c) w)
      = Inr secret \<longrightarrow>
    fst (GetConversionCABundle c k identity dryRun w) =
      (case map_of (sec_Data secret) (caCertFileName c) of
         Some v \<Rightarrow> Inr v
       | None \<Rightarrow> Inl errEmptyCABundle))
 \<and> (fst (Secrets_Get k (SanitizeKubeResourceName k identity) (conversionCACert c) w)
      = Inl NotFound \<longrightarrow>
    fst (GetConversionCABundle c k identity True w) =
      (if conversionWebhookCaBundle w = [] then Inl errEmptyCABundle
       else Inr (conversionWebhookCaBundle w)))
 \<and> (fst (Secrets_Get k (SanitizeKubeResourceName k identity) (conversionCACert c) w) = Inl e \<longrightarrow>
    e \<noteq> NotFound \<or> \<not> dryRun \<longrightarrow>
    fst (GetConversionCABundle c k identity dryRun w) = Inl e)
 \<and> (fst (Secrets_Get k (SanitizeKubeResourceName k identity) (conversionKeyPair c) w)
      = Inr kp \<longrightarrow>
    fst (Secrets_Get k (SanitizeKubeResourceName k identity) (conversionCACert c)
           (w\<lparr>calls := calls w @
                [Get (Secrets (SanitizeKubeResourceName k identity)) (conversionKeyPair c)]\<rparr>))
      = Inr cs \<longrightarrow>
    CreateConversionWebhookSecrets c k identity dryRun writer w =
      (Inr (),
       w\<lparr>calls := calls w @
            [Get (Secrets (SanitizeKubeResourceName k identity)) (conversionKeyPair c),
             Get (Secrets (SanitizeKubeResourceName k identity)) (conversionCACert c)]\<rparr>))
 \<and> (fst (Secrets_Get k (SanitizeKubeResourceName k identity) (conversionKeyPair c) w) = Inl e \<longrightarrow>
    e \<noteq> NotFound \<longrightarrow>
    CreateConversionWebhookSecrets c k identity dryRun writer w =
      (Inl e,
       w\<lparr>calls := calls w @
            [Get (Secrets (SanitizeKubeResourceName k identity)) (conversionKeyPair c)]\<rparr>))
 \<and> (fst (Secrets_Get k (SanitizeKubeResourceName k identity) (conversionKeyPair c) w)
      = Inl NotFound \<longrightarrow>
    getCerts k [getConversionWebhookDNSName k identity] = Inr (ca, pub, key) \<longrightarrow>
    wr (SecretObj (CreateOrUpdateConversionKeyPairSecret_descriptor c k identity pub key))
      = None \<longrightarrow>
    wr (SecretObj (CreateOrUpdateConversionCACertSecret_descriptor c k identity ca)) = None \<longrightarrow>
    logFault k (SecretObj (CreateOrUpdateConversionKeyPairSecret_descriptor c k identity pub key))
      = None \<longrightarrow>
    logFault k (SecretObj (CreateOrUpdateConversionCACertSecret_descriptor c k identity ca))
      = None \<longrightarrow>
    CreateConversionWebhookSecrets c k identity True (Some wr) w =
      (Inr (),
       w\<lparr>calls := calls w @
            [Get (Secrets (SanitizeKubeResourceName k identity)) (conversionKeyPair c)],
         conversionWebhookCaBundle := ca,
         written := written w @
            [SecretObj (CreateOrUpdateConversionKeyPairSecret_descriptor c k identity pub key),
             SecretObj (CreateOrUpdateConversionCACertSecret_descriptor c k identity ca)],
         printed := printed w @
            [SecretObj (CreateOrUpdateConversionKeyPairSecret_descriptor c k identity pub key),
             SecretObj (CreateOrUpdateConversionCACertSecret_descriptor c k identity ca)]\<rparr>))"
  apply (intro conjI impI)
  subgoal by (rule CreateNamespace_dryRun)
  subgoal by (rule CreateCSIDriver_dryRun)
  subgoal by (rule CreateStorageClass_dryRun)
  subgoal by (rule CreateService_dryRun)
  subgoal by (rule CreateDaemonSet_dryRun)
  subgoal by (rule CreateDeployment_dryRun)
  subgoal by (rule CreateControllerService_dryRun)
  subgoal by (rule CreateControllerSecret_dryRun)
  subgoal by (rule RegisterDriveValidationRules_dryRun)
  subgoal by (rule CreateOrUpdateConversionKeyPairSecret_dryRun)
  subgoal by (rule CreateOrUpdateConversionCACertSecret_dryRun)
  subgoal by (rule GetConversionCABundle_calls(1))
  subgoal by (rule GetConversionCABundle_calls(2))
  subgoal by (rule GetConversionCABundle_calls(3))
  subgoal using checkConversionSecrets_calls(1) [of c k identity w]
    by (simp add: CreateConversionWebhookSecrets_dryRun_world(1))
  subgoal by (rule CreateConversionWebhookSecrets_dryRun_world(2))
  subgoal by (rule CreateConversionWebhookSecrets_dryRun_world(3))
  subgoal by (rule CreateNamespace_writes)
  subgoal by (rule CreateCSIDriver_writes)
  subgoal by (rule CreateStorageClass_writes)
  subgoal by (rule CreateStorageClass_beta_writes)
  subgoal by (rule CreateService_writes)
  subgoal by (rule CreateDaemonSet_writes)
  subgoal by (rule CreateDeployment_dryRun_writes)
  subgoal by (rule RegisterDriveValidationRules_writes)
  subgoal by (rule CreateOrUpdateConversionKeyPairSecret_writes)
  subgoal by (rule CreateOrUpdateConversionCACertSecret_writes)
  subgoal by (rule GetConversionCABundle_result(1))
  subgoal by (rule GetConversionCABundle_result(2))
  subgoal by (rule GetConversionCABundle_result(3))
  subgoal by (rule CreateConversionWebhookSecrets_present)
  subgoal by (rule CreateConversionWebhookSecrets_get_error)
  subgoal by (rule CreateConversionWebhookSecrets_dryRun_absent)
  done

theorem dryRun_issues_no_create_or_update_witness:
  "calls (snd (CreateNamespace sampleConstants sampleEnv ''direct-csi-min-io'' True
                 (Some sampleWriter) sampleWorld)) = []
 \<and> written (snd (CreateNamespace sampleConstants sampleEnv ''direct-csi-min-io'' True
                 (Some sampleWriter) sampleWorld)) =
      [NamespaceObj (CreateNamespace_descriptor sampleConstants sampleEnv ''direct-csi-min-io'')]
 \<and> written (snd (CreateCSIDriver sampleConstants sampleEnv ''direct-csi-min-io'' True
                 (Some sampleWriter) sampleWorld)) =
      [CSIDriverV1Obj (CreateCSIDriver_descriptor sampleConstants sampleEnv ''direct-csi-min-io''
                         ''storage.k8s.io/v1'')]
 \<and> written (snd (CreateStorageClass sampleConstants sampleEnv ''direct-csi-min-io'' True
                 (Some sampleWriter) sampleWorld)) =
      [StorageClassV1Obj (CreateStorageClass_descriptor sampleConstants sampleEnv
                            ''direct-csi-min-io'' ''storage.k8s.io/v1'')]
 \<and> written (snd (CreateStorageClass sampleConstants
                 (sampleEnv\<lparr>apiVersions := (\<lambda>grp knd. [''v1beta1''])\<rparr>) ''direct-csi-min-io'' True
                 (Some sampleWriter) sampleWorld)) =
      [StorageClassV1beta1Obj (CreateStorageClass_descriptor sampleConstants
         (sampleEnv\<lparr>apiVersions := (\<lambda>grp knd. [''v1beta1''])\<rparr>)
         ''direct-csi-min-io'' ''storage.k8s.io/v1beta1'')]
 \<and> written (snd (CreateService sampleConstants sampleEnv ''direct-csi-min-io'' True
                 (Some sampleWriter) sampleWorld)) =
      [ServiceObj (CreateService_descriptor sampleConstants sampleEnv ''direct-csi-min-io'')]
 \<and> written (snd (CreateDaemonSet sampleConstants sampleEnv ''direct-csi-min-io''
                 ''direct-csi:latest'' True ''quay.io'' ''minio'' False [] [] [] [] False
                 (Some sampleWriter) sampleWorld)) =
      [DaemonSetObj (CreateDaemonSet_descriptor sampleConstants sampleEnv ''direct-csi-min-io''
         ''direct-csi:latest'' ''quay.io'' ''minio'' False [] [] [] [] False
         (fst (generateSanitizedUniqueNameFrom sampleEnv
                 (SanitizeKubeResourceName sampleEnv ''direct-csi-min-io'') sampleWorld)))]
 \<and> written (snd (CreateDeployment sampleConstants sampleEnv ''direct-csi-min-io''
                 ''direct-csi:latest'' True ''quay.io'' ''minio'' (Some sampleWriter) sampleWorld)) =
      [DeploymentObj (CreateDeployment_descriptor sampleConstants sampleEnv ''direct-csi-min-io''
         ''direct-csi:latest'' ''quay.io'' ''minio''
         (fst (generateSanitizedUniqueNameFrom sampleEnv
                 (SanitizeKubeResourceName sampleEnv ''direct-csi-min-io'') sampleWorld)))]
 \<and> written (snd (RegisterDriveValidationRules sampleConstants sampleEnv ''direct-csi-min-io'' True
                 (Some sampleWriter) sampleWorld)) =
      [ValidatingWebhookConfigurationObj
         (getDriveValidatingWebhookConfig sampleConstants sampleEnv ''direct-csi-min-io''
            sampleWorld)]
 \<and> written (snd (CreateOrUpdateConversionKeyPairSecret sampleConstants sampleEnv
                 ''direct-csi-min-io'' [3, 4] [5, 6] True (Some sampleWriter) sampleWorld)) =
      [SecretObj (CreateOrUpdateConversionKeyPairSecret_descriptor sampleConstants sampleEnv
                    ''direct-csi-min-io'' [3, 4] [5, 6])]
 \<and> written (snd (CreateOrUpdateConversionCACertSecret sampleConstants sampleEnv
                 ''direct-csi-min-io'' [1, 2] True (Some sampleWriter) sampleWorld)) =
      [SecretObj (CreateOrUpdateConversionCACertSecret_descriptor sampleConstants sampleEnv
                    ''direct-csi-min-io'' [1, 2])]
 \<and> fst (GetConversionCABundle sampleConstants sampleEnv ''direct-csi-min-io'' True sampleWorld) = Inl errEmptyCABundle
 \<and> fst (GetConversionCABundle sampleConstants sampleEnv ''direct-csi-min-io'' False sampleWorld) = Inl NotFound
 \<and> fst (CreateConversionWebhookSecrets sampleConstants sampleEnv ''direct-csi-min-io'' True
          (Some sampleWriter) sampleWorld) = Inr ()
 \<and> written (snd (CreateConversionWebhookSecrets sampleConstants sampleEnv ''direct-csi-min-io'' True
          (Some sampleWriter) sampleWorld)) =
      [SecretObj (CreateOrUpdateConversionKeyPairSecret_descriptor sampleConstants sampleEnv
          ''direct-csi-min-io'' [3, 4] [5, 6]),
       SecretObj (CreateOrUpdateConversionCACertSecret_descriptor sampleConstants sampleEnv
          ''direct-csi-min-io'' [1, 2])]
 \<and> conversionWebhookCaBundle (snd (CreateConversionWebhookSecrets sampleConstants sampleEnv ''direct-csi-min-io'' True
          (Some sampleWriter) sampleWorld)) = [1, 2]
 \<and> fst (GetConversionCABundle sampleConstants sampleEnv ''direct-csi-min-io'' True (sampleWorld\<lparr>conversionWebhookCaBundle := [1, 2]\<rparr>)) = Inr [1, 2]
 \<and> fst (GetConversionCABundle sampleConstants sampleEnv ''direct-csi-min-io'' True installedWorld) = Inl errEmptyCABundle
 \<and> fst (CreateConversionWebhookSecrets sampleConstants sampleEnv ''direct-csi-min-io'' True
          (Some sampleWriter) installedWorld) = Inr ()
 \<and> written (snd (CreateConversionWebhookSecrets sampleConstants sampleEnv ''direct-csi-min-io'' True
          (Some sampleWriter) installedWorld)) = []
 \<and> fst (GetConversionCABundle sampleConstants sampleEnv ''direct-csi-min-io'' True (installedWorld\<lparr>secrets := (secrets installedWorld)
            ((''direct-csi-min-io'', ''conversion-ca-cert'') \<mapsto>
               storedCACertSecret\<lparr>sec_Data := [(''ca.pem'', [1, 2])]\<rparr>)\<rparr>)) = Inr [1, 2]
 \<and> fst (GetConversionCABundle sampleConstants refusingEnv ''direct-csi-min-io'' True sampleWorld) = Inl (OtherError ''forbidden'')
 \<and> fst (CreateConversionWebhookSecrets sampleConstants refusingEnv ''direct-csi-min-io'' True
          (Some sampleWriter) sampleWorld) = Inl (OtherError ''forbidden'')"
proof -
  let ?gvk = "\<lparr>gvk_Group = ''storage.k8s.io'', gvk_Version = ''v1'', gvk_Kind = ''CSIDriver''\<rparr>"
  let ?gvkb = "\<lparr>gvk_Group = ''storage.k8s.io'', gvk_Version = ''v1beta1'', gvk_Kind = ''CSIDriver''\<rparr>"
  note A = dryRun_issues_no_create_or_update
    [where c = sampleConstants and k = sampleEnv and identity = "''direct-csi-min-io''"
       and writer = "Some sampleWriter" and wr = sampleWriter and w = sampleWorld and gvk = ?gvk
       and img = "''direct-csi:latest''" and registry = "''quay.io''" and org = "''minio''"
       and lb = False and nsel = "[]" and tol = "[]" and sp = "[]" and ap = "[]" and dd = False
       and ca = "[1, 2]" and pub = "[3, 4]" and key = "[5, 6]"]
  note B = dryRun_issues_no_create_or_update
    [where c = sampleConstants and k = "sampleEnv\<lparr>apiVersions := (\<lambda>grp knd. [''v1beta1''])\<rparr>"
       and identity = "''direct-csi-min-io''"
       and writer = "Some sampleWriter" and wr = sampleWriter and w = sampleWorld and gvk = ?gvkb]
  have g: "GetGroupKindVersions sampleEnv ''storage.k8s.io'' ''CSIDriver''
             [''v1'', ''v1beta1'', ''v1alpha1''] = Inr ?gvk"
    "GetGroupKindVersions (sampleEnv\<lparr>apiVersions := (\<lambda>grp knd. [''v1beta1''])\<rparr>) ''storage.k8s.io''
       ''CSIDriver'' [''v1'', ''v1beta1'', ''v1alpha1''] = Inr ?gvkb"
    "getCerts sampleEnv [admissionWehookDNSName sampleConstants] = Inr ([1, 2], [3, 4], [5, 6])"
    "\<And>obj. logFault sampleEnv obj = None"
    by (simp_all add: GetGroupKindVersions_def sampleEnv_def)
  have w0: "written sampleWorld = []" "calls sampleWorld = []" "\<And>obj. sampleWriter obj = None"
    by (simp_all add: sampleWorld_def sampleWriter_def)
  have a: "calls (snd (CreateNamespace sampleConstants sampleEnv ''direct-csi-min-io'' True
                 (Some sampleWriter) sampleWorld)) = []"
    using A w0 by (simp add: untouched_def)
  from A g w0 have a2: "written (snd (CreateNamespace sampleConstants sampleEnv ''direct-csi-min-io'' True
                 (Some sampleWriter) sampleWorld)) =
      [NamespaceObj (CreateNamespace_descriptor sampleConstants sampleEnv ''direct-csi-min-io'')]
 \<and> written (snd (CreateCSIDriver sampleConstants sampleEnv ''direct-csi-min-io'' True
                 (Some sampleWriter) sampleWorld)) =
      [CSIDriverV1Obj (CreateCSIDriver_descriptor sampleConstants sampleEnv ''direct-csi-min-io''
                         ''storage.k8s.io/v1'')]
 \<and> written (snd (CreateStorageClass sampleConstants sampleEnv ''direct-csi-min-io'' True
                 (Some sampleWriter) sampleWorld)) =
      [StorageClassV1Obj (CreateStorageClass_descriptor sampleConstants sampleEnv
                            ''direct-csi-min-io'' ''storage.k8s.io/v1'')]
 \<and> written (snd (CreateService sampleConstants sampleEnv ''direct-csi-min-io'' True
                 (Some sampleWriter) sampleWorld)) =
      [ServiceObj (CreateService_descriptor sampleConstants sampleEnv ''direct-csi-min-io'')]
 \<and> written (snd (CreateDaemonSet sampleConstants sampleEnv ''direct-csi-min-io''
                 ''direct-csi:latest'' True ''quay.io'' ''minio'' False [] [] [] [] False
                 (Some sampleWriter) sampleWorld)) =
      [DaemonSetObj (CreateDaemonSet_descriptor sampleConstants sampleEnv ''direct-csi-min-io''
         ''direct-csi:latest'' ''quay.io'' ''minio'' False [] [] [] [] False
         (fst (generateSanitizedUniqueNameFrom sampleEnv
                 (SanitizeKubeResourceName sampleEnv ''direct-csi-min-io'') sampleWorld)))]
 \<and> written (snd (CreateDeployment sampleConstants sampleEnv ''direct-csi-min-io''
                 ''direct-csi:latest'' True ''quay.io'' ''minio'' (Some sampleWriter) sampleWorld)) =
      [DeploymentObj (CreateDeployment_descriptor sampleConstants sampleEnv ''direct-csi-min-io''
         ''direct-csi:latest'' ''quay.io'' ''minio''
         (fst (generateSanitizedUniqueNameFrom sampleEnv
                 (SanitizeKubeResourceName sampleEnv ''direct-csi-min-io'') sampleWorld)))]
 \<and> written (snd (RegisterDriveValidationRules sampleConstants sampleEnv ''direct-csi-min-io'' True
                 (Some sampleWriter) sampleWorld)) =
      [ValidatingWebhookConfigurationObj
         (getDriveValidatingWebhookConfig sampleConstants sampleEnv ''direct-csi-min-io''
            sampleWorld)]
 \<and> written (snd (CreateOrUpdateConversionKeyPairSecret sampleConstants sampleEnv
                 ''direct-csi-min-io'' [3, 4] [5, 6] True (Some sampleWriter) sampleWorld)) =
      [SecretObj (CreateOrUpdateConversionKeyPairSecret_descriptor sampleConstants sampleEnv
                    ''direct-csi-min-io'' [3, 4] [5, 6])]
 \<and> written (snd (CreateOrUpdateConversionCACertSecret sampleConstants sampleEnv
                 ''direct-csi-min-io'' [1, 2] True (Some sampleWriter) sampleWorld)) =
      [SecretObj (CreateOrUpdateConversionCACertSecret_descriptor sampleConstants sampleEnv
                    ''direct-csi-min-io'' [1, 2])]"
    by simp
  from B g w0 have b: "written (snd (CreateStorageClass sampleConstants
                 (sampleEnv\<lparr>apiVersions := (\<lambda>grp knd. [''v1beta1''])\<rparr>) ''direct-csi-min-io'' True
                 (Some sampleWriter) sampleWorld)) =
      [StorageClassV1beta1Obj (CreateStorageClass_descriptor sampleConstants
         (sampleEnv\<lparr>apiVersions := (\<lambda>grp knd. [''v1beta1''])\<rparr>)
         ''direct-csi-min-io'' ''storage.k8s.io/v1beta1'')]"
    by simp
  have hh:
    "\<And>name cl. fst (Secrets_Get sampleEnv ''direct-csi-min-io'' name (sampleWorld\<lparr>calls := cl\<rparr>))
       = Inl NotFound"
    "\<And>name. fst (Secrets_Get sampleEnv ''direct-csi-min-io'' name sampleWorld) = Inl NotFound"
    "\<And>name b. fst (Secrets_Get sampleEnv ''direct-csi-min-io'' name
       (sampleWorld\<lparr>conversionWebhookCaBundle := b\<rparr>)) = Inl NotFound"
    "\<And>name. fst (Secrets_Get refusingEnv ''direct-csi-min-io'' name sampleWorld)
       = Inl (OtherError ''forbidden'')"
    "fst (Secrets_Get sampleEnv ''direct-csi-min-io'' ''conversion-key-pair'' installedWorld)
       = Inr storedKeyPairSecret"
    "\<And>cl. fst (Secrets_Get sampleEnv ''direct-csi-min-io'' ''conversion-ca-cert''
       (installedWorld\<lparr>calls := cl\<rparr>)) = Inr storedCACertSecret"
    "fst (Secrets_Get sampleEnv ''direct-csi-min-io'' ''conversion-ca-cert'' installedWorld)
       = Inr storedCACertSecret"
    "fst (Secrets_Get sampleEnv ''direct-csi-min-io'' ''conversion-ca-cert''
       (installedWorld\<lparr>secrets := (secrets installedWorld)
            ((''direct-csi-min-io'', ''conversion-ca-cert'') \<mapsto>
               storedCACertSecret\<lparr>sec_Data := [(''ca.pem'', [1, 2])]\<rparr>)\<rparr>))
       = Inr (storedCACertSecret\<lparr>sec_Data := [(''ca.pem'', [1, 2])]\<rparr>)"
    "SanitizeKubeResourceName sampleEnv ''direct-csi-min-io'' = ''direct-csi-min-io''"
    "SanitizeKubeResourceName refusingEnv ''direct-csi-min-io'' = ''direct-csi-min-io''"
    "conversionKeyPair sampleConstants = ''conversion-key-pair''"
    "conversionCACert sampleConstants = ''conversion-ca-cert''"
    "caCertFileName sampleConstants = ''ca.pem''"
    "\<And>names. getCerts sampleEnv names = Inr ([1, 2], [3, 4], [5, 6])"
    "\<And>obj. sampleWriter obj = None"
    "\<And>obj. logFault sampleEnv obj = None"
    "conversionWebhookCaBundle sampleWorld = []"
    "written sampleWorld = []" "written installedWorld = []"
    "sec_Data storedCACertSecret = [(''stale.pem'', [9])]"
    by (simp_all add: fst_Secrets_Get sampleEnv_def refusingEnv_def sampleWorld_def
        installedWorld_def sampleWriter_def sampleConstants_def storedKeyPairSecret_def
        storedCACertSecret_def)
  note N1 = dryRun_issues_no_create_or_update
    [where c = sampleConstants and identity = "''direct-csi-min-io''"
       and k = sampleEnv
       and w = sampleWorld
       and dryRun = False
       and e = NotFound
       and wr = sampleWriter
       and ca = "[1, 2]"
       and pub = "[3, 4]"
       and key = "[5, 6]"]
  have n1: "fst (GetConversionCABundle sampleConstants sampleEnv ''direct-csi-min-io'' True sampleWorld) = Inl errEmptyCABundle
 \<and> fst (GetConversionCABundle sampleConstants sampleEnv ''direct-csi-min-io'' False sampleWorld) = Inl NotFound
 \<and> fst (CreateConversionWebhookSecrets sampleConstants sampleEnv ''direct-csi-min-io'' True
          (Some sampleWriter) sampleWorld) = Inr ()
 \<and> written (snd (CreateConversionWebhookSecrets sampleConstants sampleEnv ''direct-csi-min-io'' True
          (Some sampleWriter) sampleWorld)) =
      [SecretObj (CreateOrUpdateConversionKeyPairSecret_descriptor sampleConstants sampleEnv
          ''direct-csi-min-io'' [3, 4] [5, 6]),
       SecretObj (CreateOrUpdateConversionCACertSecret_descriptor sampleConstants sampleEnv
          ''direct-csi-min-io'' [1, 2])]
 \<and> conversionWebhookCaBundle (snd (CreateConversionWebhookSecrets sampleConstants sampleEnv ''direct-csi-min-io'' True
          (Some sampleWriter) sampleWorld)) = [1, 2]"
    using N1
    by (simp add: hh)
  note N2 = dryRun_issues_no_create_or_update
    [where c = sampleConstants and identity = "''direct-csi-min-io''"
       and k = sampleEnv
       and w = "sampleWorld\<lparr>conversionWebhookCaBundle := [1, 2]\<rparr>"]
  have n2: "fst (GetConversionCABundle sampleConstants sampleEnv ''direct-csi-min-io'' True (sampleWorld\<lparr>conversionWebhookCaBundle := [1, 2]\<rparr>)) = Inr [1, 2]"
    using N2
    by (simp add: hh)
  note N3 = dryRun_issues_no_create_or_update
    [where c = sampleConstants and identity = "''direct-csi-min-io''"
       and k = sampleEnv
       and w = installedWorld
       and dryRun = True
       and secret = storedCACertSecret
       and kp = storedKeyPairSecret
       and cs = storedCACertSecret
       and writer = "Some sampleWriter"]
  have n3: "fst (GetConversionCABundle sampleConstants sampleEnv ''direct-csi-min-io'' True installedWorld) = Inl errEmptyCABundle
 \<and> fst (CreateConversionWebhookSecrets sampleConstants sampleEnv ''direct-csi-min-io'' True
          (Some sampleWriter) installedWorld) = Inr ()
 \<and> written (snd (CreateConversionWebhookSecrets sampleConstants sampleEnv ''direct-csi-min-io'' True
          (Some sampleWriter) installedWorld)) = []"
    using N3
    by (simp add: hh)
  note N4 = dryRun_issues_no_create_or_update
    [where c = sampleConstants and identity = "''direct-csi-min-io''"
       and k = sampleEnv
       and w = "installedWorld\<lparr>secrets := (secrets installedWorld)
            ((''direct-csi-min-io'', ''conversion-ca-cert'') \<mapsto>
               storedCACertSecret\<lparr>sec_Data := [(''ca.pem'', [1, 2])]\<rparr>)\<rparr>"
       and dryRun = True
       and secret = "storedCACertSecret\<lparr>sec_Data := [(''ca.pem'', [1, 2])]\<rparr>"]
  have n4: "fst (GetConversionCABundle sampleConstants sampleEnv ''direct-csi-min-io'' True (installedWorld\<lparr>secrets := (secrets installedWorld)
            ((''direct-csi-min-io'', ''conversion-ca-cert'') \<mapsto>
               storedCACertSecret\<lparr>sec_Data := [(''ca.pem'', [1, 2])]\<rparr>)\<rparr>)) = Inr [1, 2]"
    using N4
    by (simp add: hh)
  note N5 = dryRun_issues_no_create_or_update
    [where c = sampleConstants and identity = "''direct-csi-min-io''"
       and k = refusingEnv
       and w = sampleWorld
       and dryRun = True
       and e = "OtherError ''forbidden''"
       and writer = "Some sampleWriter"]
  have n5: "fst (GetConversionCABundle sampleConstants refusingEnv ''direct-csi-min-io'' True sampleWorld) = Inl (OtherError ''forbidden'')
 \<and> fst (CreateConversionWebhookSecrets sampleConstants refusingEnv ''direct-csi-min-io'' True
          (Some sampleWriter) sampleWorld) = Inl (OtherError ''forbidden'')"
    using N5
    by (simp add: hh)
  from a a2 b n1 n2 n3 n4 n5 show ?thesis by simp
qed

text \<open>
  C1 as stated fails for the two operations it singles out. In a dry run on a fresh
  cluster \<open>GetConversionCABundle\<close> first asks the API for the CA secret, and only falls
  back on the cached bundle when the answer is \<open>NotFound\<close>;
  \<open>CreateConversionWebhookSecrets\<close> first asks the API for the key pair secret.
\<close>

theorem dryRun_conversion_bundle_contacts_API:
  "calls (snd (GetConversionCABundle sampleConstants sampleEnv ''direct-csi-min-io'' True sampleWorld))
     = [Get (Secrets ''direct-csi-min-io'') ''conversion-ca-cert'']
 \<and> fst (GetConversionCABundle sampleConstants sampleEnv ''direct-csi-min-io'' True sampleWorld)
     = Inl errEmptyCABundle
 \<and> calls (snd (CreateConversionWebhookSecrets sampleConstants sampleEnv ''direct-csi-min-io'' True
                 (Some sampleWriter) sampleWorld))
     = [Get (Secrets ''direct-csi-min-io'') ''conversion-key-pair'']"
proof -
  have 1: "calls (snd (GetConversionCABundle sampleConstants sampleEnv ''direct-csi-min-io'' True sampleWorld))
     = [Get (Secrets ''direct-csi-min-io'') ''conversion-ca-cert'']"
    by (simp add: GetConversionCABundle_calls)
       (simp add: sampleEnv_def sampleWorld_def sampleConstants_def)
  have 2: "fst (GetConversionCABundle sampleConstants sampleEnv ''direct-csi-min-io'' True sampleWorld)
     = Inl errEmptyCABundle"
    by (simp add: GetConversionCABundle_def Secrets_Get_def Let_def IsNotFound_def sampleEnv_def
        sampleWorld_def)
  have 3: "calls (snd (CreateConversionWebhookSecrets sampleConstants sampleEnv ''direct-csi-min-io'' True
                 (Some sampleWriter) sampleWorld))
     = [Get (Secrets ''direct-csi-min-io'') ''conversion-key-pair'']"
    by (simp add: CreateConversionWebhookSecrets_dryRun_world)
       (simp add: checkConversionSecrets_def Secrets_Get_def Let_def sampleEnv_def sampleWorld_def
          sampleConstants_def)
  from 1 2 3 show ?thesis by simp
qed

section \<open>The conversion-secret reconcilers\<close>



end
